theory Spec2Isabelle
  imports Complex_Main "HOL-Library.Sublist"
begin

section \<open>Errors and sequencing\<close>

text \<open>
  The C++ sources signal failure by throwing. Three kinds of exception matter here:
  \<^item> \<open>RuntimeError\<close>: \<^verbatim>\<open>std::runtime_error\<close>, thrown by an accessor of the event record
    when the branch it reads does not exist in the input file;
  \<^item> \<open>OutOfRange\<close>: \<^verbatim>\<open>std::out_of_range\<close>, thrown by \<^verbatim>\<open>std::vector::at\<close>; it is a
    \<^verbatim>\<open>std::logic_error\<close>, so a handler for \<^verbatim>\<open>runtime_error\<close> does not catch it;
  \<^item> \<open>StoreError\<close>: the fatal error of the two per-record stores (unknown name or a
    type other than the declared one).
  The decision graph adds its own faults: \<open>NotFound\<close> (no node of that name),
  \<open>SlotOccupied\<close>, \<open>DuplicateName\<close> and \<open>RootExists\<close>.
  A function that may throw returns \<open>error + 'a\<close>, with \<open>Inl\<close> the exception.
\<close>

datatype error =
    RuntimeError | OutOfRange | StoreError
  | NotFound | SlotOccupied | DuplicateName | RootExists

definition seq :: "error + 'a \<Rightarrow> ('a \<Rightarrow> error + 'b) \<Rightarrow> error + 'b" where
  "seq m f = (case m of Inl e \<Rightarrow> Inl e | Inr x \<Rightarrow> f x)"

text \<open>\<^verbatim>\<open>std::vector::at\<close> with a signed index converted to \<^verbatim>\<open>size_t\<close>: a negative
  index becomes a huge unsigned one and is out of range as well.\<close>

definition vector_at :: "'a list \<Rightarrow> int \<Rightarrow> error + 'a" where
  "vector_at xs i = (if 0 \<le> i \<and> i < int (length xs) then Inr (xs ! nat i) else Inl OutOfRange)"

text \<open>\<^verbatim>\<open>TString::Contains\<close>: the pattern occurs somewhere in the string.\<close>

fun Contains :: "string \<Rightarrow> string \<Rightarrow> bool" where
  "Contains [] pat = (pat = [])"
| "Contains (c # cs) pat = (prefix pat (c # cs) \<or> Contains cs pat)"

section \<open>The event record (Nano)\<close>

text \<open>
  A four-vector is kept by the three coordinates the cuts read. Doubles are modelled as
  reals: the cuts only compare and store them.
\<close>

record LorentzVector =
  pt :: real
  eta :: real
  phi :: real

text \<open>
  The fields of the current entry that the cuts below read. A trigger branch exists only
  in some input files: \<open>None\<close> is a branch that does not exist. \<open>current_file\<close> is the
  name of the input file being read (\<^verbatim>\<open>cli.input_tchain->GetCurrentFile()->GetName()\<close>).
\<close>

record Nano =
  nt_year :: int
  nt_isData :: bool
  nt_Flag_goodVertices :: bool
  nt_Flag_HBHENoiseFilter :: bool
  nt_Flag_HBHENoiseIsoFilter :: bool
  nt_Flag_EcalDeadCellTriggerPrimitiveFilter :: bool
  nt_Flag_BadPFMuonFilter :: bool
  nt_Flag_globalSuperTightHalo2016Filter :: bool
  b_HLT_IsoMu24 :: "bool option"
  b_HLT_IsoTkMu24 :: "bool option"
  b_HLT_IsoMu27 :: "bool option"
  b_HLT_Ele27_WPTight_Gsf :: "bool option"
  b_HLT_Ele32_WPTight_Gsf_L1DoubleEG :: "bool option"
  b_HLT_Ele32_WPTight_Gsf :: "bool option"
  nt_nGenPart :: nat
  nt_GenPart_pdgId :: "int list"
  nt_GenPart_status :: "int list"
  nt_GenPart_genPartIdxMother :: "int list"
  nt_GenPart_p4 :: "LorentzVector list"
  current_file :: string

text \<open>An accessor of an optional branch throws \<^verbatim>\<open>std::runtime_error\<close> when the branch
  is absent.\<close>

definition read_branch :: "'a option \<Rightarrow> error + 'a" where
  "read_branch b = (case b of None \<Rightarrow> Inl RuntimeError | Some v \<Rightarrow> Inr v)"

definition HLT_IsoMu24 :: "Nano \<Rightarrow> error + bool" where
  "HLT_IsoMu24 ev = read_branch (b_HLT_IsoMu24 ev)"

definition HLT_IsoTkMu24 :: "Nano \<Rightarrow> error + bool" where
  "HLT_IsoTkMu24 ev = read_branch (b_HLT_IsoTkMu24 ev)"

definition HLT_IsoMu27 :: "Nano \<Rightarrow> error + bool" where
  "HLT_IsoMu27 ev = read_branch (b_HLT_IsoMu27 ev)"

definition HLT_Ele27_WPTight_Gsf :: "Nano \<Rightarrow> error + bool" where
  "HLT_Ele27_WPTight_Gsf ev = read_branch (b_HLT_Ele27_WPTight_Gsf ev)"

definition HLT_Ele32_WPTight_Gsf_L1DoubleEG :: "Nano \<Rightarrow> error + bool" where
  "HLT_Ele32_WPTight_Gsf_L1DoubleEG ev = read_branch (b_HLT_Ele32_WPTight_Gsf_L1DoubleEG ev)"

definition HLT_Ele32_WPTight_Gsf :: "Nano \<Rightarrow> error + bool" where
  "HLT_Ele32_WPTight_Gsf ev = read_branch (b_HLT_Ele32_WPTight_Gsf ev)"

section \<open>The two per-record stores\<close>

text \<open>
  The output row store (\<^verbatim>\<open>Arbol\<close>) and the variable store (\<^verbatim>\<open>cutflow.globals\<close>) are
  used by the sources below through \<^verbatim>\<open>newBranch\<close>, \<^verbatim>\<open>getLeaf\<close>, \<^verbatim>\<open>setLeaf\<close>,
  \<^verbatim>\<open>resetBranches\<close>, \<^verbatim>\<open>fill\<close> and \<^verbatim>\<open>newVar\<close>, \<^verbatim>\<open>getVal\<close>, \<^verbatim>\<open>setVal\<close>,
  \<^verbatim>\<open>resetVars\<close>; their implementation is not among the source files.
\<close>

datatype leaf = IntLeaf int | DoubleLeaf real | BoolLeaf bool

datatype leaf_type = TInt | TDouble | TBool

fun leaf_type_of :: "leaf \<Rightarrow> leaf_type" where
  "leaf_type_of (IntLeaf _) = TInt"
| "leaf_type_of (DoubleLeaf _) = TDouble"
| "leaf_type_of (BoolLeaf _) = TBool"

record branch =
  leaf_value :: leaf
  leaf_default :: leaf

type_synonym Arbol = "string \<rightharpoonup> branch"

text \<open>Modelled from the spec: \<^verbatim>\<open>Arbol::newBranch\<close> is not among the sources. The Output
  Row Store is a "name to (typed value, typed default) mapping"; a field is declared once,
  with its default, and starts at the default.\<close>

definition newBranch :: "string \<Rightarrow> leaf \<Rightarrow> Arbol \<Rightarrow> Arbol" where
  "newBranch name dflt a = a(name \<mapsto> \<lparr>leaf_value = dflt, leaf_default = dflt\<rparr>)"

text \<open>Modelled from the spec: \<^verbatim>\<open>Arbol::resetBranches\<close> is not among the sources.
  "Default values are restored at the start of every record (not carried over)."\<close>

definition resetBranches :: "Arbol \<Rightarrow> Arbol" where
  "resetBranches a = (\<lambda>name. map_option (\<lambda>b. b\<lparr>leaf_value := leaf_default b\<rparr>) (a name))"

text \<open>Modelled from the spec: \<^verbatim>\<open>Arbol::getLeaf<T>\<close> is not among the sources. "Reading an
  undeclared name, or reading/writing with a type other than the slot's declared type, is a
  fatal error."\<close>

definition getLeaf_int :: "Arbol \<Rightarrow> string \<Rightarrow> error + int" where
  "getLeaf_int a name =
     (case a name of
        None \<Rightarrow> Inl StoreError
      | Some b \<Rightarrow> (case leaf_value b of IntLeaf i \<Rightarrow> Inr i | _ \<Rightarrow> Inl StoreError))"

definition getLeaf_double :: "Arbol \<Rightarrow> string \<Rightarrow> error + real" where
  "getLeaf_double a name =
     (case a name of
        None \<Rightarrow> Inl StoreError
      | Some b \<Rightarrow> (case leaf_value b of DoubleLeaf d \<Rightarrow> Inr d | _ \<Rightarrow> Inl StoreError))"

definition getLeaf_bool :: "Arbol \<Rightarrow> string \<Rightarrow> error + bool" where
  "getLeaf_bool a name =
     (case a name of
        None \<Rightarrow> Inl StoreError
      | Some b \<Rightarrow> (case leaf_value b of BoolLeaf v \<Rightarrow> Inr v | _ \<Rightarrow> Inl StoreError))"

text \<open>Modelled from the spec: \<^verbatim>\<open>Arbol::setLeaf<T>\<close> is not among the sources. Same typing
  discipline; "writing an existing slot overwrites its current value".\<close>

definition setLeaf :: "string \<Rightarrow> leaf \<Rightarrow> Arbol \<Rightarrow> error + Arbol" where
  "setLeaf name v a =
     (case a name of
        None \<Rightarrow> Inl StoreError
      | Some b \<Rightarrow>
          if leaf_type_of v = leaf_type_of (leaf_default b)
          then Inr (a(name \<mapsto> b\<lparr>leaf_value := v\<rparr>))
          else Inl StoreError)"

text \<open>Modelled from the spec: the prospective output row, "the Output Row Store's current
  values": the current value of every declared field.\<close>

definition current_row :: "Arbol \<Rightarrow> (string \<rightharpoonup> leaf)" where
  "current_row a = (\<lambda>name. map_option leaf_value (a name))"

text \<open>The values the variable store holds in these sources.\<close>

datatype gval =
    P4 LorentzVector
  | P4s "LorentzVector list"
  | Doubles "real list"
  | Integers "int list"

datatype gtype = TP4 | TP4s | TDoubles | TIntegers

fun gtype_of :: "gval \<Rightarrow> gtype" where
  "gtype_of (P4 _) = TP4"
| "gtype_of (P4s _) = TP4s"
| "gtype_of (Doubles _) = TDoubles"
| "gtype_of (Integers _) = TIntegers"

text \<open>Modelled from the spec: the variable store (\<^verbatim>\<open>Utilities::Variables\<close>) is not among
  the sources. A slot has "a fixed declared type set once before processing starts" and its
  value is "reset to an empty/unset state at the start of every record": the empty list, or
  the zero four-vector.\<close>

fun unset_of :: "gtype \<Rightarrow> gval" where
  "unset_of TP4 = P4 \<lparr>pt = 0, eta = 0, phi = 0\<rparr>"
| "unset_of TP4s = P4s []"
| "unset_of TDoubles = Doubles []"
| "unset_of TIntegers = Integers []"

type_synonym Variables = "string \<rightharpoonup> gval"

text \<open>Modelled from the spec: \<^verbatim>\<open>Variables::newVar<T>\<close> is not among the sources. A slot is
  declared once, with its type, and starts unset.\<close>

definition newVar :: "string \<Rightarrow> gtype \<Rightarrow> Variables \<Rightarrow> Variables" where
  "newVar name ty g = g(name \<mapsto> unset_of ty)"

text \<open>Modelled from the spec: \<^verbatim>\<open>Variables::resetVars\<close> is not among the sources. Every
  slot goes back to the unset value of its type.\<close>

definition resetVars :: "Variables \<Rightarrow> Variables" where
  "resetVars g = (\<lambda>name. map_option (\<lambda>v. unset_of (gtype_of v)) (g name))"

text \<open>Modelled from the spec: \<^verbatim>\<open>Variables::getVal<T>\<close> is not among the sources. "Reading
  an undeclared name, or reading/writing with a type other than the slot's declared type, is
  a fatal error." One function for each type \<open>T\<close> read in the sources.\<close>

definition getVal_P4 :: "Variables \<Rightarrow> string \<Rightarrow> error + LorentzVector" where
  "getVal_P4 g name = (case g name of Some (P4 v) \<Rightarrow> Inr v | _ \<Rightarrow> Inl StoreError)"

definition getVal_P4s :: "Variables \<Rightarrow> string \<Rightarrow> error + LorentzVector list" where
  "getVal_P4s g name = (case g name of Some (P4s v) \<Rightarrow> Inr v | _ \<Rightarrow> Inl StoreError)"

definition getVal_Doubles :: "Variables \<Rightarrow> string \<Rightarrow> error + real list" where
  "getVal_Doubles g name = (case g name of Some (Doubles v) \<Rightarrow> Inr v | _ \<Rightarrow> Inl StoreError)"


text \<open>Modelled from the spec: \<^verbatim>\<open>Variables::setVal<T>\<close> is not among the sources. Same
  typing discipline; the value is overwritten for the current record.\<close>

definition setVal :: "string \<Rightarrow> gval \<Rightarrow> Variables \<Rightarrow> error + Variables" where
  "setVal name v g =
     (case g name of
        None \<Rightarrow> Inl StoreError
      | Some old \<Rightarrow> if gtype_of v = gtype_of old then Inr (g(name \<mapsto> v)) else Inl StoreError)"

text \<open>What every cut holds by reference: the row store, the variable store and the event
  record.\<close>

record Analysis =
  arbol :: Arbol
  globals :: Variables
  nt :: Nano

section \<open>PassesEventFilters (vbswh.h)\<close>

definition PassesEventFilters_evaluate :: "Analysis \<Rightarrow> error + bool \<times> Analysis" where
  "PassesEventFilters_evaluate s =
     (let passed =
            (nt_Flag_goodVertices (nt s)
             \<and> nt_Flag_HBHENoiseFilter (nt s)
             \<and> nt_Flag_HBHENoiseIsoFilter (nt s)
             \<and> nt_Flag_EcalDeadCellTriggerPrimitiveFilter (nt s)
             \<and> nt_Flag_BadPFMuonFilter (nt s));
          passed =
            (if nt_isData (nt s)
             then passed \<and> nt_Flag_globalSuperTightHalo2016Filter (nt s)
             else passed)
      in Inr (passed, s))"

section \<open>Passes1LepTriggers (vbswh.h)\<close>

text \<open>
  \<^verbatim>\<open>passed || nt.HLT_X()\<close>: the right operand is evaluated only when \<open>passed\<close> is false.
\<close>

definition or_else :: "bool \<Rightarrow> (error + bool) \<Rightarrow> error + bool" where
  "or_else passed rhs = (if passed then Inr True else rhs)"

text \<open>
  \<^verbatim>\<open>try { passed = e; } catch (const runtime_error& error) { /* do nothing */ }\<close>:
  when \<open>e\<close> throws \<^verbatim>\<open>runtime_error\<close> the assignment does not happen and \<open>passed\<close> keeps
  its value; any other exception leaves the block.
\<close>

definition try_assign :: "bool \<Rightarrow> (error + bool) \<Rightarrow> error + bool" where
  "try_assign passed e =
     (case e of
        Inr b \<Rightarrow> Inr b
      | Inl RuntimeError \<Rightarrow> Inr passed
      | Inl err \<Rightarrow> Inl err)"

definition passesMuonTriggers :: "Nano \<Rightarrow> error + bool" where
  "passesMuonTriggers ev =
     (let passed = False in
      if nt_year ev = 2016 then
        seq (try_assign passed (or_else passed (HLT_IsoMu24 ev))) (\<lambda>passed.
        seq (try_assign passed (or_else passed (HLT_IsoTkMu24 ev))) (\<lambda>passed.
        Inr passed))
      else if nt_year ev = 2017 then
        seq (try_assign passed (or_else passed (HLT_IsoMu27 ev))) (\<lambda>passed.
        Inr passed)
      else if nt_year ev = 2018 then
        seq (try_assign passed (or_else passed (HLT_IsoMu24 ev))) (\<lambda>passed.
        Inr passed)
      else Inr passed)"

definition passesElecTriggers :: "Nano \<Rightarrow> error + bool" where
  "passesElecTriggers ev =
     (let passed = False in
      if nt_year ev = 2016 then
        seq (try_assign passed (or_else passed (HLT_Ele27_WPTight_Gsf ev))) (\<lambda>passed.
        seq (or_else passed (passesMuonTriggers ev)) (\<lambda>passed.
        Inr passed))
      else if nt_year ev = 2017 then
        seq (try_assign passed (or_else passed (HLT_Ele32_WPTight_Gsf_L1DoubleEG ev))) (\<lambda>passed.
        Inr passed)
      else if nt_year ev = 2018 then
        seq (try_assign passed (or_else passed (HLT_Ele32_WPTight_Gsf ev))) (\<lambda>passed.
        Inr passed)
      else Inr passed)"

definition passesLepTriggers :: "Nano \<Rightarrow> nat \<Rightarrow> error + bool" where
  "passesLepTriggers ev abs_lep_pdg_id =
     (if \<not> nt_isData ev then
        (if abs_lep_pdg_id = 11 then passesElecTriggers ev
         else if abs_lep_pdg_id = 13 then passesMuonTriggers ev
         else Inr True)
      else
        (let file_name = current_file ev in
         if Contains file_name ''SingleMuon'' then passesMuonTriggers ev
         else if Contains file_name ''SingleElectron'' \<or> Contains file_name ''EGamma''
           then passesElecTriggers ev
         else seq (passesMuonTriggers ev) (\<lambda>m. or_else m (passesElecTriggers ev))))"

text \<open>\<^verbatim>\<open>evaluate\<close>: the cut reads the selected lepton's id from the row store. The leaf is
  a C \<^verbatim>\<open>int\<close>, modelled as an integer; \<^verbatim>\<open>abs\<close> of it is passed as \<^verbatim>\<open>unsigned int\<close>.\<close>

definition Passes1LepTriggers_evaluate :: "Analysis \<Rightarrow> error + bool \<times> Analysis" where
  "Passes1LepTriggers_evaluate s =
     seq (getLeaf_int (arbol s) ''lep_pdgID'') (\<lambda>lep_pdgID.
     seq (passesLepTriggers (nt s) (nat \<bar>lep_pdgID\<bar>)) (\<lambda>passed.
     Inr (passed, s)))"

text \<open>The neutral default: an absent trigger bit read as \<open>False\<close>.\<close>

definition bit_or_false :: "bool option \<Rightarrow> bool" where
  "bit_or_false b = (case b of None \<Rightarrow> False | Some v \<Rightarrow> v)"

definition absent_as_false :: "Nano \<Rightarrow> Nano" where
  "absent_as_false ev =
     ev\<lparr>b_HLT_IsoMu24 := Some (bit_or_false (b_HLT_IsoMu24 ev)),
        b_HLT_IsoTkMu24 := Some (bit_or_false (b_HLT_IsoTkMu24 ev)),
        b_HLT_IsoMu27 := Some (bit_or_false (b_HLT_IsoMu27 ev)),
        b_HLT_Ele27_WPTight_Gsf := Some (bit_or_false (b_HLT_Ele27_WPTight_Gsf ev)),
        b_HLT_Ele32_WPTight_Gsf_L1DoubleEG :=
          Some (bit_or_false (b_HLT_Ele32_WPTight_Gsf_L1DoubleEG ev)),
        b_HLT_Ele32_WPTight_Gsf := Some (bit_or_false (b_HLT_Ele32_WPTight_Gsf ev))\<rparr>"

section \<open>Lambda cuts\<close>

text \<open>
  A \<^verbatim>\<open>LambdaCut\<close> wraps a closure that returns \<^verbatim>\<open>bool\<close>. The closures below read leaves
  of the row store and write nothing, so the cut passes the stores on as they are.
\<close>

definition LambdaCut :: "(Analysis \<Rightarrow> error + bool) \<Rightarrow> Analysis \<Rightarrow> error + bool \<times> Analysis" where
  "LambdaCut f s = seq (f s) (\<lambda>passed. Inr (passed, s))"

text \<open>\<^verbatim>\<open>a && b\<close>: the right operand is evaluated only when the left one is true.\<close>

definition and_then :: "bool \<Rightarrow> (error + bool) \<Rightarrow> error + bool" where
  "and_then lhs rhs = (if lhs then rhs else Inr False)"

text \<open>vbsvvhjets/collections.h, the closure of \<^verbatim>\<open>AllMerged_XWqqGt0p7\<close>: both operands of
  \<^verbatim>\<open>&&\<close> read the leaf \<^verbatim>\<open>ld_vqqfatjet_score\<close>.\<close>

definition AllMerged_XWqqGt0p7 :: "Analysis \<Rightarrow> error + bool" where
  "AllMerged_XWqqGt0p7 s =
     seq (getLeaf_double (arbol s) ''ld_vqqfatjet_score'') (\<lambda>ld.
     and_then (ld > 0.7)
       (seq (getLeaf_double (arbol s) ''ld_vqqfatjet_score'') (\<lambda>ld'. Inr (ld' > 0.7))))"

text \<open>The closures of \<^verbatim>\<open>Exactly3FatJets\<close> and \<^verbatim>\<open>Exactly2FatJets\<close>.\<close>

definition Exactly3FatJets :: "Analysis \<Rightarrow> error + bool" where
  "Exactly3FatJets s = seq (getLeaf_int (arbol s) ''n_fatjets'') (\<lambda>n. Inr (n = 3))"

definition Exactly2FatJets :: "Analysis \<Rightarrow> error + bool" where
  "Exactly2FatJets s = seq (getLeaf_int (arbol s) ''n_fatjets'') (\<lambda>n. Inr (n = 2))"

text \<open>The other closures of vbsvvhjets/collections.h, by the name of their cut.\<close>

definition NoLeptons :: "Analysis \<Rightarrow> error + bool" where
  "NoLeptons s = seq (getVal_P4s (globals s) ''veto_lep_p4s'') (\<lambda>p4s. Inr (length p4s = 0))"

definition ApplyAk4GlobalBVeto :: "Analysis \<Rightarrow> error + bool" where
  "ApplyAk4GlobalBVeto s = getLeaf_bool (arbol s) ''passes_bveto''"

definition STGt1200 :: "Analysis \<Rightarrow> error + bool" where
  "STGt1200 s = seq (getLeaf_double (arbol s) ''ST'') (\<lambda>v. Inr (v > 1200))"

definition MjjGt500 :: "Analysis \<Rightarrow> error + bool" where
  "MjjGt500 s = seq (getLeaf_double (arbol s) ''M_jj'') (\<lambda>v. Inr (v > 500))"

definition detajjGt3 :: "Analysis \<Rightarrow> error + bool" where
  "detajjGt3 s = seq (getLeaf_double (arbol s) ''deta_jj'') (\<lambda>v. Inr (\<bar>v\<bar> > 3))"

definition MjjGt600_detajjGt4 :: "Analysis \<Rightarrow> error + bool" where
  "MjjGt600_detajjGt4 s =
     seq (getLeaf_double (arbol s) ''M_jj'') (\<lambda>m.
     and_then (m > 600) (seq (getLeaf_double (arbol s) ''deta_jj'') (\<lambda>v. Inr (\<bar>v\<bar> > 4))))"

definition XbbGt0p9 :: "Analysis \<Rightarrow> error + bool" where
  "XbbGt0p9 s = seq (getLeaf_double (arbol s) ''hbbfatjet_score'') (\<lambda>v. Inr (v > 0.9))"

definition STGt1500 :: "Analysis \<Rightarrow> error + bool" where
  "STGt1500 s = seq (getLeaf_double (arbol s) ''ST'') (\<lambda>v. Inr (v > 1500))"

definition Geq4Jets :: "Analysis \<Rightarrow> error + bool" where
  "Geq4Jets s = seq (getLeaf_int (arbol s) ''n_jets'') (\<lambda>n. Inr (n \<ge> 4))"

section \<open>Sample records\<close>

text \<open>A simulated 2018 record in which no trigger branch exists.\<close>

definition mc_event :: Nano where
  "mc_event =
     \<lparr>nt_year = 2018, nt_isData = False,
      nt_Flag_goodVertices = True, nt_Flag_HBHENoiseFilter = True,
      nt_Flag_HBHENoiseIsoFilter = True, nt_Flag_EcalDeadCellTriggerPrimitiveFilter = True,
      nt_Flag_BadPFMuonFilter = True, nt_Flag_globalSuperTightHalo2016Filter = True,
      b_HLT_IsoMu24 = None, b_HLT_IsoTkMu24 = None, b_HLT_IsoMu27 = None,
      b_HLT_Ele27_WPTight_Gsf = None, b_HLT_Ele32_WPTight_Gsf_L1DoubleEG = None,
      b_HLT_Ele32_WPTight_Gsf = None,
      nt_nGenPart = 0, nt_GenPart_pdgId = [], nt_GenPart_status = [],
      nt_GenPart_genPartIdxMother = [], nt_GenPart_p4 = [],
      current_file = ''VBSWH_Inclusive.root''\<rparr>"

text \<open>A row store holding a tau as the selected lepton.\<close>

definition tau_state :: Analysis where
  "tau_state =
     \<lparr>arbol = newBranch ''lep_pdgID'' (IntLeaf (- 15)) Map.empty,
      globals = Map.empty,
      nt = mc_event\<rparr>"

text \<open>A row store in which the leading V(qq) fat jet scores 0.8 and the trailing one 0.1.\<close>

definition vqq_state :: Analysis where
  "vqq_state =
     \<lparr>arbol = newBranch ''tr_vqqfatjet_score'' (DoubleLeaf 0.1)
                (newBranch ''ld_vqqfatjet_score'' (DoubleLeaf 0.8) Map.empty),
      globals = Map.empty,
      nt = mc_event\<rparr>"

section \<open>SelectHbbFatJet (vbswh.h)\<close>

text \<open>
  \<^verbatim>\<open>std::max_element\<close> keeps an iterator to the largest element seen so far and moves it
  only on a strictly greater one, so it returns the first greatest element; on an empty
  range it returns \<^verbatim>\<open>end()\<close>. \<^verbatim>\<open>std::distance\<close> from \<^verbatim>\<open>begin()\<close> is its index, stored in
  an \<^verbatim>\<open>int\<close>.
\<close>

fun max_element_from :: "real list \<Rightarrow> nat \<Rightarrow> real \<Rightarrow> nat \<Rightarrow> nat" where
  "max_element_from [] i largest largest_i = largest_i"
| "max_element_from (x # xs) i largest largest_i =
     (if largest < x then max_element_from xs (Suc i) x i
      else max_element_from xs (Suc i) largest largest_i)"

definition max_element_index :: "real list \<Rightarrow> int" where
  "max_element_index xs =
     (case xs of [] \<Rightarrow> 0 | x # rest \<Rightarrow> int (max_element_from rest 1 x 0))"

text \<open>A \<^verbatim>\<open>for\<close> loop over indices whose body may throw: the first exception ends it.\<close>

fun for_loop :: "nat list \<Rightarrow> (nat \<Rightarrow> 'a \<Rightarrow> error + 'a) \<Rightarrow> 'a \<Rightarrow> error + 'a" where
  "for_loop [] body acc = Inr acc"
| "for_loop (i # rest) body acc =
     (case body i acc of Inl e \<Rightarrow> Inl e | Inr acc' \<Rightarrow> for_loop rest body acc')"

text \<open>
  The body of the loop over generator particles: a b quark (\<open>|pdgId| = 5\<close>) of status 23
  whose mother is not a b quark counts when it lies within \<open>DeltaR < 0.8\<close> of the jet.
  \<^verbatim>\<open>ROOT::Math::VectorUtil::DeltaR\<close> is a library function, taken as a parameter.
\<close>

definition count_genbquark ::
  "(LorentzVector \<Rightarrow> LorentzVector \<Rightarrow> real) \<Rightarrow> Nano \<Rightarrow> LorentzVector \<Rightarrow> nat \<Rightarrow> int \<Rightarrow> error + int"
where
  "count_genbquark DeltaR ev best_hbbjet_p4 gen_i n_hbbjet_genbquarks =
     seq (vector_at (nt_GenPart_pdgId ev) (int gen_i)) (\<lambda>pdgId.
     if \<bar>pdgId\<bar> \<noteq> 5 then Inr n_hbbjet_genbquarks else
     seq (vector_at (nt_GenPart_status ev) (int gen_i)) (\<lambda>status.
     if status \<noteq> 23 then Inr n_hbbjet_genbquarks else
     seq (vector_at (nt_GenPart_genPartIdxMother ev) (int gen_i)) (\<lambda>mother_i.
     seq (vector_at (nt_GenPart_pdgId ev) mother_i) (\<lambda>mother_pdgId.
     if \<bar>mother_pdgId\<bar> = 5 then Inr n_hbbjet_genbquarks else
     seq (vector_at (nt_GenPart_p4 ev) (int gen_i)) (\<lambda>genpart_p4.
     if DeltaR best_hbbjet_p4 genpart_p4 < 0.8 then Inr (n_hbbjet_genbquarks + 1)
     else Inr n_hbbjet_genbquarks)))))"

text \<open>The first block of \<^verbatim>\<open>evaluate\<close>: the index of the best score and the score, read from
  the tag list named \<open>tags_name\<close>.\<close>

definition best_hbbjet :: "Variables \<Rightarrow> string \<Rightarrow> error + int \<times> real" where
  "best_hbbjet g tags_name =
     seq (getVal_Doubles g tags_name) (\<lambda>tags.
     let best_hbbjet_i = max_element_index tags in
     seq (vector_at tags best_hbbjet_i) (\<lambda>best_hbbjet_score.
     Inr (best_hbbjet_i, best_hbbjet_score)))"

definition SelectHbbFatJet_evaluate ::
  "(LorentzVector \<Rightarrow> LorentzVector \<Rightarrow> real) \<Rightarrow> bool \<Rightarrow> Analysis \<Rightarrow> error + bool \<times> Analysis"
where
  "SelectHbbFatJet_evaluate DeltaR use_md s =
     seq (if use_md then best_hbbjet (globals s) ''good_fatjet_xbbtags''
          else best_hbbjet (globals s) ''good_fatjet_hbbtags'') (\<lambda>(best_hbbjet_i, best_hbbjet_score).
     if best_hbbjet_i < 0 then Inr (False, s) else
     seq (getVal_P4s (globals s) ''good_fatjet_p4s'') (\<lambda>p4s.
     seq (vector_at p4s best_hbbjet_i) (\<lambda>best_hbbjet_p4.
     seq (if \<not> nt_isData (nt s)
          then for_loop [0..<nt_nGenPart (nt s)] (count_genbquark DeltaR (nt s) best_hbbjet_p4) 0
          else Inr 0) (\<lambda>n_hbbjet_genbquarks.
     seq (setVal ''hbbjet_p4'' (P4 best_hbbjet_p4) (globals s)) (\<lambda>g.
     seq (setLeaf ''n_hbbjet_genbquarks'' (IntLeaf n_hbbjet_genbquarks) (arbol s)) (\<lambda>a.
     seq (setLeaf ''hbbjet_score'' (DoubleLeaf best_hbbjet_score) a) (\<lambda>a.
     seq (setLeaf ''hbbjet_pt'' (DoubleLeaf (pt best_hbbjet_p4)) a) (\<lambda>a.
     seq (setLeaf ''hbbjet_eta'' (DoubleLeaf (eta best_hbbjet_p4)) a) (\<lambda>a.
     seq (setLeaf ''hbbjet_phi'' (DoubleLeaf (phi best_hbbjet_p4)) a) (\<lambda>a.
     seq (getVal_Doubles g ''good_fatjet_masses'') (\<lambda>masses.
     seq (vector_at masses best_hbbjet_i) (\<lambda>mass.
     seq (setLeaf ''hbbjet_mass'' (DoubleLeaf mass) a) (\<lambda>a.
     seq (getVal_Doubles g ''good_fatjet_msoftdrops'') (\<lambda>msoftdrops.
     seq (vector_at msoftdrops best_hbbjet_i) (\<lambda>msoftdrop.
     seq (setLeaf ''hbbjet_msoftdrop'' (DoubleLeaf msoftdrop) a) (\<lambda>a.
     seq (getLeaf_double a ''LT'') (\<lambda>LT.
     seq (setLeaf ''ST'' (DoubleLeaf (LT + pt best_hbbjet_p4)) a) (\<lambda>a.
     Inr (True, s\<lparr>arbol := a, globals := g\<rparr>)))))))))))))))))))"

text \<open>
  What the upstream cuts leave in the stores when at least one fat jet was selected: the
  tag list is not empty and the lists of four-vectors, masses and soft-drop masses run
  parallel to it; the slot and the leaves that \<^verbatim>\<open>evaluate\<close> writes are declared with the
  types it writes.
\<close>

definition length_is :: "error + 'a list \<Rightarrow> nat \<Rightarrow> bool" where
  "length_is r n = (case r of Inl e \<Rightarrow> False | Inr xs \<Rightarrow> length xs = n)"

definition declared :: "Arbol \<Rightarrow> string \<Rightarrow> leaf_type \<Rightarrow> bool" where
  "declared a name ty =
     (case a name of
        None \<Rightarrow> False
      | Some b \<Rightarrow> leaf_type_of (leaf_default b) = ty \<and> leaf_type_of (leaf_value b) = ty)"

definition hbb_stores_ok :: "string \<Rightarrow> Analysis \<Rightarrow> bool" where
  "hbb_stores_ok tags_name s =
     (case getVal_Doubles (globals s) tags_name of
        Inl e \<Rightarrow> False
      | Inr tags \<Rightarrow>
          tags \<noteq> []
          \<and> length_is (getVal_P4s (globals s) ''good_fatjet_p4s'') (length tags)
          \<and> length_is (getVal_Doubles (globals s) ''good_fatjet_masses'') (length tags)
          \<and> length_is (getVal_Doubles (globals s) ''good_fatjet_msoftdrops'') (length tags)
          \<and> \<not> isl (getVal_P4 (globals s) ''hbbjet_p4'')
          \<and> declared (arbol s) ''n_hbbjet_genbquarks'' TInt
          \<and> declared (arbol s) ''hbbjet_score'' TDouble
          \<and> declared (arbol s) ''hbbjet_pt'' TDouble
          \<and> declared (arbol s) ''hbbjet_eta'' TDouble
          \<and> declared (arbol s) ''hbbjet_phi'' TDouble
          \<and> declared (arbol s) ''hbbjet_mass'' TDouble
          \<and> declared (arbol s) ''hbbjet_msoftdrop'' TDouble
          \<and> declared (arbol s) ''LT'' TDouble
          \<and> declared (arbol s) ''ST'' TDouble)"

text \<open>
  A well-formed generator record: the four per-particle arrays have \<open>nGenPart\<close> entries,
  and a status-23 b quark has its mother among them.
\<close>

definition genparts_ok :: "Nano \<Rightarrow> bool" where
  "genparts_ok ev =
     (length (nt_GenPart_pdgId ev) = nt_nGenPart ev
      \<and> length (nt_GenPart_status ev) = nt_nGenPart ev
      \<and> length (nt_GenPart_genPartIdxMother ev) = nt_nGenPart ev
      \<and> length (nt_GenPart_p4 ev) = nt_nGenPart ev
      \<and> list_all (\<lambda>i. \<bar>nt_GenPart_pdgId ev ! i\<bar> = 5 \<and> nt_GenPart_status ev ! i = 23
                     \<longrightarrow> 0 \<le> nt_GenPart_genPartIdxMother ev ! i
                       \<and> nt_GenPart_genPartIdxMother ev ! i < int (nt_nGenPart ev))
          [0..<nt_nGenPart ev])"

section \<open>Has1Lep (vbswh.h)\<close>






section \<open>Declarations of the VBSWH analysis (vbswh.h)\<close>

text \<open>
  \<^verbatim>\<open>Analysis::initBranches\<close> first calls \<^verbatim>\<open>Core::Analysis::initBranches\<close>, which is not among
  the sources: \<open>core\<close> is the row store it leaves. The seventeen \<^verbatim>\<open>newBranch\<close> calls follow
  in the order of the source.
\<close>

definition VBSWH_branches :: "(string \<times> leaf) list" where
  "VBSWH_branches =
     [(''lep_sf'', DoubleLeaf (- 999)),
      (''lep_sf_up'', DoubleLeaf (- 999)),
      (''lep_sf_dn'', DoubleLeaf (- 999)),
      (''lep_pdgID'', IntLeaf (- 999)),
      (''lep_pt'', DoubleLeaf (- 999)),
      (''lep_eta'', DoubleLeaf (- 999)),
      (''lep_phi'', DoubleLeaf (- 999)),
      (''LT'', DoubleLeaf (- 999)),
      (''n_hbbjet_genbquarks'', IntLeaf (- 999)),
      (''hbbjet_score'', DoubleLeaf (- 999)),
      (''hbbjet_pt'', DoubleLeaf (- 999)),
      (''hbbjet_eta'', DoubleLeaf (- 999)),
      (''hbbjet_phi'', DoubleLeaf (- 999)),
      (''hbbjet_mass'', DoubleLeaf (- 999)),
      (''hbbjet_msoftdrop'', DoubleLeaf (- 999)),
      (''ST'', DoubleLeaf (- 999)),
      (''passes_bveto'', BoolLeaf False)]"

definition initBranches :: "Arbol \<Rightarrow> Arbol" where
  "initBranches core = fold (\<lambda>(name, dflt). newBranch name dflt) VBSWH_branches core"

text \<open>The constructor of \<^verbatim>\<open>VBSWH::Analysis\<close> declares two four-vector slots on top of those
  of \<^verbatim>\<open>Core::Analysis\<close> (\<open>core\<close>).\<close>

definition initGlobals :: "Variables \<Rightarrow> Variables" where
  "initGlobals core = newVar ''hbbjet_p4'' TP4 (newVar ''lep_p4'' TP4 core)"

section \<open>Sample record with fat jets\<close>

text \<open>A simulated record with a Higgs boson decaying to two b quarks, and the stores as the
  fat-jet selection leaves them for two fat jets. \<open>sample_DeltaR\<close> stands for the library
  function on this sample.\<close>

definition sample_DeltaR :: "LorentzVector \<Rightarrow> LorentzVector \<Rightarrow> real" where
  "sample_DeltaR a b = max \<bar>eta a - eta b\<bar> \<bar>phi a - phi b\<bar>"

definition hbb_event :: Nano where
  "hbb_event =
     mc_event\<lparr>nt_nGenPart := 3,
              nt_GenPart_pdgId := [25, 5, - 5],
              nt_GenPart_status := [22, 23, 23],
              nt_GenPart_genPartIdxMother := [- 1, 0, 0],
              nt_GenPart_p4 := [\<lparr>pt = 400, eta = 0.5, phi = 1\<rparr>,
                                \<lparr>pt = 250, eta = 0.6, phi = 1.2\<rparr>,
                                \<lparr>pt = 150, eta = 0.3, phi = 2.5\<rparr>]\<rparr>"

definition hbb_state :: Analysis where
  "hbb_state =
     \<lparr>arbol = initBranches Map.empty,
      globals =
        (initGlobals Map.empty)
          (''good_fatjet_xbbtags'' \<mapsto> Doubles [0.2, 0.9],
           ''good_fatjet_hbbtags'' \<mapsto> Doubles [0.1, 0.8],
           ''good_fatjet_p4s'' \<mapsto> P4s [\<lparr>pt = 300, eta = - 1, phi = 0\<rparr>,
                                          \<lparr>pt = 410, eta = 0.5, phi = 1.1\<rparr>],
           ''good_fatjet_masses'' \<mapsto> Doubles [82, 126],
           ''good_fatjet_msoftdrops'' \<mapsto> Doubles [80, 124]),
      nt = hbb_event\<rparr>"

section \<open>The driver (vbswh/main.cc)\<close>

text \<open>
  The state the event callback of \<^verbatim>\<open>main\<close> works on: the stores and the event record
  shared with the cuts, the rest of the \<^verbatim>\<open>Cutflow\<close> object (\<open>'c\<close>: its nodes and
  counters), the rows filled into the output tree so far, the looper's event count and stop
  request, and the \<^verbatim>\<open>--debug\<close> flag of the command line. The cuts reach the row store
  through \<^verbatim>\<open>getLeaf\<close> and \<^verbatim>\<open>setLeaf\<close> only; filling the tree is the driver's.
\<close>

record 'c Driver =
  analysis :: Analysis
  cutflow :: 'c
  ttree :: "(string \<rightharpoonup> leaf) list"
  n_events_processed :: nat
  stop_requested :: bool
  cli_debug :: bool

text \<open>Modelled from the spec: \<^verbatim>\<open>Arbol::fill\<close> is not among the sources. It "appends the
  Output Row Store's current values as one row to an output table".\<close>

definition fill :: "'c Driver \<Rightarrow> 'c Driver" where
  "fill d = d\<lparr>ttree := ttree d @ [current_row (arbol (analysis d))]\<rparr>"

text \<open>Modelled from the spec: \<^verbatim>\<open>Looper::stop\<close> is not among the sources. It requests the end
  of the driver loop.\<close>

definition stop :: "'c Driver \<Rightarrow> 'c Driver" where
  "stop d = d\<lparr>stop_requested := True\<rparr>"

text \<open>The three statements before \<^verbatim>\<open>cutflow.run\<close>, in the order of the source.\<close>

definition arbol_resetBranches :: "'c Driver \<Rightarrow> 'c Driver" where
  "arbol_resetBranches d = d\<lparr>analysis := (analysis d)\<lparr>arbol := resetBranches (arbol (analysis d))\<rparr>\<rparr>"

definition globals_resetVars :: "'c Driver \<Rightarrow> 'c Driver" where
  "globals_resetVars d = d\<lparr>analysis := (analysis d)\<lparr>globals := resetVars (globals (analysis d))\<rparr>\<rparr>"

definition nt_GetEntry :: "(int \<Rightarrow> Nano \<Rightarrow> Nano) \<Rightarrow> int \<Rightarrow> 'c Driver \<Rightarrow> 'c Driver" where
  "nt_GetEntry GetEntry entry d = d\<lparr>analysis := (analysis d)\<lparr>nt := GetEntry entry (nt (analysis d))\<rparr>\<rparr>"

text \<open>
  The event callback handed to \<^verbatim>\<open>looper.run\<close>. \<^verbatim>\<open>Cutflow::run\<close> and \<^verbatim>\<open>Nano::GetEntry\<close> are
  not among the sources and are parameters: \<open>run\<close> stands for
  \<^verbatim>\<open>cutflow.run("SelectVBSJetsMaxE")\<close>; it gets the cutflow and the stores, and returns
  the verdict with both updated, or throws. The progress bar only prints.
\<close>

definition event ::
  "('c \<Rightarrow> Analysis \<Rightarrow> error + bool \<times> 'c \<times> Analysis) \<Rightarrow> (int \<Rightarrow> Nano \<Rightarrow> Nano) \<Rightarrow> int
     \<Rightarrow> 'c Driver \<Rightarrow> error + 'c Driver"
where
  "event run GetEntry entry d =
     (if cli_debug d \<and> n_events_processed d = 10000 then Inr (stop d)
      else
        let d = arbol_resetBranches d;
            d = globals_resetVars d;
            d = nt_GetEntry GetEntry entry d
        in seq (run (cutflow d) (analysis d)) (\<lambda>(passed, c, s).
           let d = d\<lparr>cutflow := c, analysis := s\<rparr> in
           Inr (if passed then fill d else d)))"

text \<open>The stores and the record as \<^verbatim>\<open>cutflow.run\<close> finds them.\<close>

definition traversal_start :: "(int \<Rightarrow> Nano \<Rightarrow> Nano) \<Rightarrow> int \<Rightarrow> 'c Driver \<Rightarrow> Analysis" where
  "traversal_start GetEntry entry d =
     analysis (nt_GetEntry GetEntry entry (globals_resetVars (arbol_resetBranches d)))"

text \<open>Two states of the stores with the same declarations: the same fields with the same
  defaults, the same slots with the same types. Their current values may differ.\<close>

definition same_declarations :: "Analysis \<Rightarrow> Analysis \<Rightarrow> bool" where
  "same_declarations s s' =
     ((\<forall>name. map_option leaf_default (arbol s name) = map_option leaf_default (arbol s' name))
      \<and> (\<forall>name. map_option gtype_of (globals s name) = map_option gtype_of (globals s' name)))"

section \<open>Sample driver states\<close>

text \<open>The stores right after their declaration, and as a previous record left them; a
  driver in debug mode that has processed \<open>n\<close> events and holds the latter.\<close>

definition fresh_state :: Analysis where
  "fresh_state =
     \<lparr>arbol = initBranches Map.empty, globals = initGlobals Map.empty, nt = mc_event\<rparr>"

definition used_state :: Analysis where
  "used_state =
     \<lparr>arbol = (initBranches Map.empty)
                 (''lep_pt'' \<mapsto> \<lparr>leaf_value = DoubleLeaf 55, leaf_default = DoubleLeaf (- 999)\<rparr>,
                  ''passes_bveto'' \<mapsto> \<lparr>leaf_value = BoolLeaf True, leaf_default = BoolLeaf False\<rparr>),
      globals = (initGlobals Map.empty)(''lep_p4'' \<mapsto> P4 \<lparr>pt = 55, eta = 1, phi = 2\<rparr>),
      nt = mc_event\<rparr>"

definition debug_driver :: "nat \<Rightarrow> unit Driver" where
  "debug_driver n =
     \<lparr>analysis = used_state, cutflow = (), ttree = [], n_events_processed = n,
      stop_requested = False, cli_debug = True\<rparr>"

text \<open>A stand-in for the traversal on the samples: it accepts exactly when \<open>lep_pt\<close> still
  holds its default.\<close>

definition sample_run :: "unit \<Rightarrow> Analysis \<Rightarrow> error + bool \<times> unit \<times> Analysis" where
  "sample_run c s = seq (getLeaf_double (arbol s) ''lep_pt'') (\<lambda>v. Inr (v = - 999, c, s))"

definition sample_GetEntry :: "int \<Rightarrow> Nano \<Rightarrow> Nano" where
  "sample_GetEntry entry ev = (if entry = 0 then mc_event else hbb_event)"

section \<open>The decision graph\<close>

text \<open>
  Modelled from the spec: the classes \<^verbatim>\<open>Cut\<close> and \<^verbatim>\<open>Cutflow\<close> are not among the sources. A
  decision node has a unique name, a predicate that may read and write the stores, a weight
  contribution, a successor taken on pass (\<^verbatim>\<open>Right\<close>) and one taken on fail (\<^verbatim>\<open>Left\<close>).
  The graph owns its nodes and is a tree: a node is \<open>Cut name evaluate weight right left\<close>,
  and \<open>Null\<close> is the absent successor.
\<close>

datatype direction = Left | Right

datatype 's Cut =
    Null
  | Cut string "'s \<Rightarrow> error + bool \<times> 's" "'s \<Rightarrow> error + real" "'s Cut" "'s Cut"

fun is_Cut :: "'s Cut \<Rightarrow> bool" where
  "is_Cut Null = False"
| "is_Cut (Cut nm ev wt r l) = True"

fun names_of :: "'s Cut \<Rightarrow> string list" where
  "names_of Null = []"
| "names_of (Cut nm ev wt r l) = nm # names_of r @ names_of l"

text \<open>Modelled from the spec: the name index of the graph. Names are unique, so the node of
  a name is the first one found.\<close>

fun getCut :: "string \<Rightarrow> 's Cut \<Rightarrow> 's Cut" where
  "getCut target Null = Null"
| "getCut target (Cut nm ev wt r l) =
     (if nm = target then Cut nm ev wt r l
      else (case getCut target r of
              Null \<Rightarrow> getCut target l
            | Cut nm' ev' wt' r' l' \<Rightarrow> Cut nm' ev' wt' r' l'))"

text \<open>Modelled from the spec: attaching a node as the pass- or fail-successor of the node
  named \<open>anchor\<close>.\<close>

fun attach :: "string \<Rightarrow> 's Cut \<Rightarrow> direction \<Rightarrow> 's Cut \<Rightarrow> 's Cut" where
  "attach anchor new dir Null = Null"
| "attach anchor new dir (Cut nm ev wt r l) =
     (if nm = anchor then
        (case dir of Right \<Rightarrow> Cut nm ev wt new l | Left \<Rightarrow> Cut nm ev wt r new)
      else Cut nm ev wt (attach anchor new dir r) (attach anchor new dir l))"

text \<open>Modelled from the spec: \<^verbatim>\<open>Cutflow::setRoot\<close> "designates the unique entry point; fails
  if a root already exists".\<close>

definition setRoot :: "'s Cut \<Rightarrow> 's Cut \<Rightarrow> error + 's Cut" where
  "setRoot new tree = (if is_Cut tree then Inl RootExists else Inr new)"

text \<open>Modelled from the spec: \<^verbatim>\<open>Cutflow::insert\<close> "locates the node named anchorName (fails
  with NotFound if absent), and attaches newNode as its pass- or fail-successor (fails with
  SlotOccupied if that successor already exists). Registers newNode's name in the global
  index (fails with DuplicateName if already present)." The sources of the VVH analysis
  pass the anchor node itself; it stands for its name.\<close>

definition cutflow_insert :: "string \<Rightarrow> 's Cut \<Rightarrow> direction \<Rightarrow> 's Cut \<Rightarrow> error + 's Cut" where
  "cutflow_insert anchor new dir tree =
     (case getCut anchor tree of
        Null \<Rightarrow> Inl NotFound
      | Cut nm ev wt r l \<Rightarrow>
          if is_Cut (case dir of Right \<Rightarrow> r | Left \<Rightarrow> l) then Inl SlotOccupied
          else if list_ex (\<lambda>n. n \<in> set (names_of tree)) (names_of new) then Inl DuplicateName
          else Inr (attach anchor new dir tree))"

text \<open>A sequence of \<^verbatim>\<open>insert\<close> calls; the first fault aborts the construction.\<close>

fun inserts :: "(string \<times> 's Cut \<times> direction) list \<Rightarrow> 's Cut \<Rightarrow> error + 's Cut" where
  "inserts [] tree = Inr tree"
| "inserts ((anchor, new, dir) # rest) tree =
     (case cutflow_insert anchor new dir tree of
        Inl e \<Rightarrow> Inl e
      | Inr tree' \<Rightarrow> inserts rest tree')"

text \<open>
  Modelled from the spec: the per-node statistics of the graph ("per-node
  pass/fail/weighted-yield counters"), kept by node name.
\<close>

record counter =
  n_pass :: nat
  n_fail :: nat
  n_pass_weighted :: real

text \<open>Modelled from the spec: "increment current's pass counter" and "add to current's
  weighted-pass accumulator"; "increment current's fail counter".\<close>

definition count_pass :: "real \<Rightarrow> counter \<Rightarrow> counter" where
  "count_pass w c = c\<lparr>n_pass := n_pass c + 1, n_pass_weighted := n_pass_weighted c + w\<rparr>"

definition count_fail :: "counter \<Rightarrow> counter" where
  "count_fail c = c\<lparr>n_fail := n_fail c + 1\<rparr>"

text \<open>
  The result of a traversal: ACCEPT or REJECT, the cumulative weight, the terminal node, the
  counters and the stores as the traversal leaves them. \<open>visited\<close> is the log of the walk,
  kept to state the properties below: one entry per visited node, with the weight
  contribution it returned when its predicate passed and \<open>None\<close> when it failed.
\<close>

record 's Outcome =
  accepted :: bool
  cumulative_weight :: real
  terminal_cut :: string
  visited :: "(string \<times> real option) list"
  counters :: "string \<Rightarrow> counter"
  stores :: 's

text \<open>
  Modelled from the spec: the traversal loop of \<^verbatim>\<open>Cutflow::run\<close>. "Evaluate current's
  predicate. If true: increment current's pass counter; weight *= current's weight
  contribution; add to current's weighted-pass accumulator; if a pass-successor exists,
  current becomes it; else terminate with ACCEPT. If false: increment current's fail counter;
  if a fail-successor exists, current becomes it; else terminate with REJECT." A predicate
  or a weight that throws aborts the run.
\<close>

fun walk ::
  "'s Cut \<Rightarrow> (string \<Rightarrow> counter) \<Rightarrow> (string \<times> real option) list \<Rightarrow> real \<Rightarrow> 's
     \<Rightarrow> error + 's Outcome"
where
  "walk Null k trail w s = Inl NotFound"
| "walk (Cut nm ev wt r l) k trail w s =
     (case ev s of
        Inl e \<Rightarrow> Inl e
      | Inr (passed, s') \<Rightarrow>
          if passed then
            (case wt s' of
               Inl e \<Rightarrow> Inl e
             | Inr c \<Rightarrow>
                 let w' = w * c;
                     k' = k(nm := count_pass w' (k nm));
                     trail' = trail @ [(nm, Some c)]
                 in if is_Cut r then walk r k' trail' w' s'
                    else Inr \<lparr>accepted = True, cumulative_weight = w', terminal_cut = nm,
                              visited = trail', counters = k', stores = s'\<rparr>)
          else
            let k' = k(nm := count_fail (k nm));
                trail' = trail @ [(nm, None)]
            in if is_Cut l then walk l k' trail' w s'
               else Inr \<lparr>accepted = False, cumulative_weight = w, terminal_cut = nm,
                         visited = trail', counters = k', stores = s'\<rparr>)"

text \<open>Modelled from the spec: \<^verbatim>\<open>Cutflow::run(startName)\<close>. The walk begins at the node of
  that name, with weight 1.0.\<close>

definition Cutflow_run :: "'s Cut \<Rightarrow> (string \<Rightarrow> counter) \<Rightarrow> string \<Rightarrow> 's \<Rightarrow> error + 's Outcome" where
  "Cutflow_run tree k start s = walk (getCut start tree) k [] 1 s"

text \<open>What a caller observes of a traversal apart from the statistics.\<close>

definition observed :: "'s Outcome \<Rightarrow> bool \<times> real \<times> string \<times> (string \<times> real option) list \<times> 's" where
  "observed out = (accepted out, cumulative_weight out, terminal_cut out, visited out, stores out)"

text \<open>How often a node was entered, from its counters; whether a traversal visited a
  node.\<close>

definition entries :: "(string \<Rightarrow> counter) \<Rightarrow> string \<Rightarrow> nat" where
  "entries k nm = n_pass (k nm) + n_fail (k nm)"

definition visits :: "'s Outcome \<Rightarrow> string \<Rightarrow> bool" where
  "visits out nm = (nm \<in> set (map fst (visited out)))"




text \<open>The name of a node, and the names of the nodes below it.\<close>

fun cut_name :: "'s Cut \<Rightarrow> string" where
  "cut_name Null = []"
| "cut_name (Cut nm ev wt r l) = nm"

fun below :: "'s Cut \<Rightarrow> string list" where
  "below Null = []"
| "below (Cut nm ev wt r l) = names_of r @ names_of l"

section \<open>The cutflow of the VVH all-hadronic analysis (vbsvvhjets/collections.h)\<close>

text \<open>
  The cuts of classes that are not among the sources (\<^verbatim>\<open>Core::Bookkeeping\<close>,
  \<^verbatim>\<open>SelectVVHFatJets\<close>, ...) are parameters: \<open>ext\<close> gives the predicate and the weight
  of each by the name of its node. A \<^verbatim>\<open>LambdaCut\<close> built without a weight closure and a
  cut class that does not override \<^verbatim>\<open>weight\<close> contribute the default 1.0.
\<close>

type_synonym external_cuts =
  "string \<Rightarrow> (Analysis \<Rightarrow> error + bool \<times> Analysis) \<times> (Analysis \<Rightarrow> error + real)"

definition external_cut :: "external_cuts \<Rightarrow> string \<Rightarrow> Analysis Cut" where
  "external_cut ext nm = Cut nm (fst (ext nm)) (snd (ext nm)) Null Null"

definition lambda_cut :: "string \<Rightarrow> (Analysis \<Rightarrow> error + bool) \<Rightarrow> Analysis Cut" where
  "lambda_cut nm f = Cut nm (LambdaCut f) (\<lambda>s. Inr 1) Null Null"

text \<open>\<^verbatim>\<open>VBSVVHJets::Analysis::initCutflow\<close>: \<^verbatim>\<open>setRoot\<close>, then the \<^verbatim>\<open>insert\<close> calls in the
  order of the source.\<close>

definition VBSVVHJets_initCutflow :: "external_cuts \<Rightarrow> error + Analysis Cut" where
  "VBSVVHJets_initCutflow ext =
     seq (setRoot (external_cut ext ''Bookkeeping'') Null)
       (inserts
          [(''Bookkeeping'', external_cut ext ''SaveSystWeights'', Right),
           (''SaveSystWeights'',
              Cut ''PassesEventFilters'' PassesEventFilters_evaluate (\<lambda>s. Inr 1) Null Null, Right),
           (''PassesEventFilters'', external_cut ext ''PassesTriggers'', Right),
           (''PassesTriggers'', external_cut ext ''SelectLeptons'', Right),
           (''SelectLeptons'', lambda_cut ''NoLeptons'' NoLeptons, Right),
           (''NoLeptons'', external_cut ext ''SelectFatJets'', Right),
           (''SelectFatJets'', lambda_cut ''Exactly3FatJets'' Exactly3FatJets, Right),
           (''Exactly3FatJets'', external_cut ext ''AllMerged_SelectVVHFatJets'', Right),
           (''AllMerged_SelectVVHFatJets'', external_cut ext ''AllMerged_SelectJets'', Right),
           (''AllMerged_SelectJets'', external_cut ext ''AllMerged_SelectVBSJetsMaxE'', Right),
           (''AllMerged_SelectVBSJetsMaxE'', external_cut ext ''AllMerged_SaveVariables'', Right),
           (''AllMerged_SaveVariables'',
              lambda_cut ''AllMerged_ApplyAk4GlobalBVeto'' ApplyAk4GlobalBVeto, Right),
           (''AllMerged_ApplyAk4GlobalBVeto'', lambda_cut ''AllMerged_STGt1200'' STGt1200, Right),
           (''AllMerged_STGt1200'', lambda_cut ''AllMerged_MjjGt500'' MjjGt500, Right),
           (''AllMerged_MjjGt500'', lambda_cut ''AllMerged_detajjGt3'' detajjGt3, Right),
           (''AllMerged_detajjGt3'',
              lambda_cut ''AllMerged_MjjGt600_detajjGt4'' MjjGt600_detajjGt4, Right),
           (''AllMerged_MjjGt600_detajjGt4'', lambda_cut ''AllMerged_XbbGt0p9'' XbbGt0p9, Right),
           (''AllMerged_XbbGt0p9'', lambda_cut ''AllMerged_XWqqGt0p7'' AllMerged_XWqqGt0p7, Right),
           (''AllMerged_XWqqGt0p7'', lambda_cut ''AllMerged_STGt1500'' STGt1500, Right),
           (''Exactly3FatJets'', lambda_cut ''Exactly2FatJets'' Exactly2FatJets, Left),
           (''Exactly2FatJets'', external_cut ext ''SemiMerged_SelectVVHFatJets'', Right),
           (''SemiMerged_SelectVVHFatJets'', external_cut ext ''SemiMerged_SelectJets'', Right),
           (''SemiMerged_SelectJets'', lambda_cut ''SemiMerged_Geq4Jets'' Geq4Jets, Right),
           (''SemiMerged_Geq4Jets'', external_cut ext ''SemiMerged_SelectVBSJetsMaxE'', Right),
           (''SemiMerged_SelectVBSJetsMaxE'', external_cut ext ''SemiMerged_SelectVJets'', Right),
           (''SemiMerged_SelectVJets'', external_cut ext ''SemiMerged_SaveVariables'', Right),
           (''SemiMerged_SaveVariables'', lambda_cut ''SemiMerged_MjjGt500'' MjjGt500, Right)])"

text \<open>Linking nodes into a chain of pass-successors, to write a tree down.\<close>

fun then_pass :: "'s Cut \<Rightarrow> 's Cut \<Rightarrow> 's Cut" where
  "then_pass Null next = Null"
| "then_pass (Cut nm ev wt r l) next = Cut nm ev wt next l"

definition AllMerged_chain :: "external_cuts \<Rightarrow> Analysis Cut" where
  "AllMerged_chain ext =
     foldr then_pass
       [external_cut ext ''AllMerged_SelectVVHFatJets'',
        external_cut ext ''AllMerged_SelectJets'',
        external_cut ext ''AllMerged_SelectVBSJetsMaxE'',
        external_cut ext ''AllMerged_SaveVariables'',
        lambda_cut ''AllMerged_ApplyAk4GlobalBVeto'' ApplyAk4GlobalBVeto,
        lambda_cut ''AllMerged_STGt1200'' STGt1200,
        lambda_cut ''AllMerged_MjjGt500'' MjjGt500,
        lambda_cut ''AllMerged_detajjGt3'' detajjGt3,
        lambda_cut ''AllMerged_MjjGt600_detajjGt4'' MjjGt600_detajjGt4,
        lambda_cut ''AllMerged_XbbGt0p9'' XbbGt0p9,
        lambda_cut ''AllMerged_XWqqGt0p7'' AllMerged_XWqqGt0p7,
        lambda_cut ''AllMerged_STGt1500'' STGt1500]
       Null"

definition SemiMerged_chain :: "external_cuts \<Rightarrow> Analysis Cut" where
  "SemiMerged_chain ext =
     foldr then_pass
       [external_cut ext ''SemiMerged_SelectVVHFatJets'',
        external_cut ext ''SemiMerged_SelectJets'',
        lambda_cut ''SemiMerged_Geq4Jets'' Geq4Jets,
        external_cut ext ''SemiMerged_SelectVBSJetsMaxE'',
        external_cut ext ''SemiMerged_SelectVJets'',
        external_cut ext ''SemiMerged_SaveVariables'',
        lambda_cut ''SemiMerged_MjjGt500'' MjjGt500]
       Null"

text \<open>The node \<open>Exactly3FatJets\<close> with the two sub-pipelines below it, and the whole tree.\<close>

definition Exactly3FatJets_cut :: "external_cuts \<Rightarrow> Analysis Cut" where
  "Exactly3FatJets_cut ext =
     Cut ''Exactly3FatJets'' (LambdaCut Exactly3FatJets) (\<lambda>s. Inr 1)
       (AllMerged_chain ext)
       (Cut ''Exactly2FatJets'' (LambdaCut Exactly2FatJets) (\<lambda>s. Inr 1)
          (SemiMerged_chain ext) Null)"

definition VBSVVHJets_tree :: "external_cuts \<Rightarrow> Analysis Cut" where
  "VBSVVHJets_tree ext =
     foldr then_pass
       [external_cut ext ''Bookkeeping'',
        external_cut ext ''SaveSystWeights'',
        Cut ''PassesEventFilters'' PassesEventFilters_evaluate (\<lambda>s. Inr 1) Null Null,
        external_cut ext ''PassesTriggers'',
        external_cut ext ''SelectLeptons'',
        lambda_cut ''NoLeptons'' NoLeptons,
        external_cut ext ''SelectFatJets'']
       (Exactly3FatJets_cut ext)"

text \<open>The successors of a node.\<close>

fun pass_child :: "'s Cut \<Rightarrow> 's Cut" where
  "pass_child Null = Null"
| "pass_child (Cut nm ev wt r l) = r"

fun fail_child :: "'s Cut \<Rightarrow> 's Cut" where
  "fail_child Null = Null"
| "fail_child (Cut nm ev wt r l) = l"

section \<open>Sample records for the VVH cutflow\<close>

text \<open>Stand-ins for the cuts that are not among the sources: each passes, leaves the stores
  alone and contributes the weight 1.\<close>

definition sample_ext :: external_cuts where
  "sample_ext nm = (\<lambda>s. Inr (True, s), \<lambda>s. Inr 1)"

definition no_counts :: "string \<Rightarrow> counter" where
  "no_counts nm = \<lparr>n_pass = 0, n_fail = 0, n_pass_weighted = 0\<rparr>"

text \<open>A record with \<open>n\<close> selected fat jets that does not pass the b veto.\<close>

definition fatjets_state :: "int \<Rightarrow> Analysis" where
  "fatjets_state n =
     \<lparr>arbol = (newBranch ''passes_bveto'' (BoolLeaf False)
                 (newBranch ''n_fatjets'' (IntLeaf (- 999)) Map.empty))
                 (''n_fatjets'' \<mapsto> \<lparr>leaf_value = IntLeaf n, leaf_default = IntLeaf (- 999)\<rparr>),
      globals = Map.empty,
      nt = mc_event\<rparr>"

section \<open>A weighted sample cutflow\<close>






section \<open>Properties of the trigger cut\<close>

lemma try_read_branch:
  "try_assign passed (or_else passed (read_branch b)) = Inr (passed \<or> bit_or_false b)"
  by (cases b) (simp_all add: try_assign_def or_else_def read_branch_def bit_or_false_def)

lemma or_else_Inr: "or_else passed (Inr b) = Inr (passed \<or> b)"
  by (simp add: or_else_def)

lemma seq_Inr [simp]: "seq (Inr x) f = f x"
  by (simp add: seq_def)

lemma seq_Inl [simp]: "seq (Inl e) f = Inl e"
  by (simp add: seq_def)

lemma passesMuonTriggers_eq:
  "passesMuonTriggers ev =
     Inr (if nt_year ev = 2016
            then bit_or_false (b_HLT_IsoMu24 ev) \<or> bit_or_false (b_HLT_IsoTkMu24 ev)
          else if nt_year ev = 2017 then bit_or_false (b_HLT_IsoMu27 ev)
          else if nt_year ev = 2018 then bit_or_false (b_HLT_IsoMu24 ev)
          else False)"
  by (simp add: passesMuonTriggers_def try_read_branch
      HLT_IsoMu24_def HLT_IsoTkMu24_def HLT_IsoMu27_def)

lemma passesElecTriggers_eq:
  "passesElecTriggers ev =
     Inr (if nt_year ev = 2016
            then bit_or_false (b_HLT_Ele27_WPTight_Gsf ev)
              \<or> bit_or_false (b_HLT_IsoMu24 ev) \<or> bit_or_false (b_HLT_IsoTkMu24 ev)
          else if nt_year ev = 2017 then bit_or_false (b_HLT_Ele32_WPTight_Gsf_L1DoubleEG ev)
          else if nt_year ev = 2018 then bit_or_false (b_HLT_Ele32_WPTight_Gsf ev)
          else False)"
  by (simp add: passesElecTriggers_def try_read_branch passesMuonTriggers_eq or_else_Inr
      HLT_Ele27_WPTight_Gsf_def HLT_Ele32_WPTight_Gsf_L1DoubleEG_def HLT_Ele32_WPTight_Gsf_def)

text \<open>
  Claim C4. For every event record, whichever trigger branches are absent, both
  \<open>passesMuonTriggers\<close> and \<open>passesElecTriggers\<close> return a boolean (no exception leaves
  them), and the boolean is the one they return on the record in which every absent
  trigger bit has been replaced by \<open>False\<close>.
\<close>

theorem trigger_absence_is_not_fatal:
  "(\<exists>b. passesMuonTriggers ev = Inr b) \<and> (\<exists>b. passesElecTriggers ev = Inr b)
   \<and> passesMuonTriggers ev = passesMuonTriggers (absent_as_false ev)
   \<and> passesElecTriggers ev = passesElecTriggers (absent_as_false ev)"
  by (simp add: passesMuonTriggers_eq passesElecTriggers_eq absent_as_false_def bit_or_false_def)


text \<open>
  Claim C10. On a simulated record (\<open>isData\<close> false) whose selected lepton's absolute pdg
  id is neither 11 nor 13, \<open>passesLepTriggers\<close> returns true whatever the trigger bits are
  (present or absent, set or not), and so does the cut's \<open>evaluate\<close> when the \<open>lep_pdgID\<close>
  leaf holds such an id.
\<close>

theorem other_flavour_passes_triggers:
  assumes "\<not> nt_isData ev" and "abs_id \<noteq> 11" and "abs_id \<noteq> 13"
  shows "passesLepTriggers
           (ev\<lparr>b_HLT_IsoMu24 := m24, b_HLT_IsoTkMu24 := tk24, b_HLT_IsoMu27 := m27,
               b_HLT_Ele27_WPTight_Gsf := e27, b_HLT_Ele32_WPTight_Gsf_L1DoubleEG := e32l,
               b_HLT_Ele32_WPTight_Gsf := e32\<rparr>) abs_id = Inr True
         \<and> passesLepTriggers ev abs_id = Inr True
         \<and> (\<forall>s v. nt s = ev \<and> getLeaf_int (arbol s) ''lep_pdgID'' = Inr v \<and> nat \<bar>v\<bar> = abs_id
               \<longrightarrow> Passes1LepTriggers_evaluate s = Inr (True, s))"
  using assms by (auto simp add: passesLepTriggers_def Passes1LepTriggers_evaluate_def)

theorem other_flavour_passes_triggers_witness:
  "\<not> nt_isData mc_event
   \<and> getLeaf_int (arbol tau_state) ''lep_pdgID'' = Inr (- 15)
   \<and> passesLepTriggers mc_event 15 = Inr True
   \<and> Passes1LepTriggers_evaluate tau_state = Inr (True, tau_state)"
proof -
  have data: "\<not> nt_isData mc_event"
    by (simp add: mc_event_def)
  have leaf: "getLeaf_int (arbol tau_state) ''lep_pdgID'' = Inr (- 15)"
    by (simp add: tau_state_def getLeaf_int_def newBranch_def)
  have "nt tau_state = mc_event"
    by (simp add: tau_state_def)
  with data leaf
    other_flavour_passes_triggers [of mc_event 15 "b_HLT_IsoMu24 mc_event"
      "b_HLT_IsoTkMu24 mc_event" "b_HLT_IsoMu27 mc_event" "b_HLT_Ele27_WPTight_Gsf mc_event"
      "b_HLT_Ele32_WPTight_Gsf_L1DoubleEG mc_event" "b_HLT_Ele32_WPTight_Gsf mc_event"]
  show ?thesis by simp
qed

section \<open>Properties of the lambda cuts\<close>

lemma getLeaf_double_cong:
  "a' name = a name \<Longrightarrow> getLeaf_double a' name = getLeaf_double a name"
  by (simp add: getLeaf_double_def)

text \<open>
  Claim C9. The closure of \<open>AllMerged_XWqqGt0p7\<close> depends on the leaf
  \<open>ld_vqqfatjet_score\<close> only: when that leaf holds the double \<open>v\<close> the cut passes exactly
  when \<open>v > 0.7\<close>, and two row stores that agree on every leaf but \<open>tr_vqqfatjet_score\<close>
  give the same result.
\<close>

theorem XWqqGt0p7_tests_leading_score_only:
  "(arbol s ''ld_vqqfatjet_score'' = Some b \<and> leaf_value b = DoubleLeaf v
      \<longrightarrow> AllMerged_XWqqGt0p7 s = Inr (v > 0.7)
        \<and> LambdaCut AllMerged_XWqqGt0p7 s = Inr (v > 0.7, s))
   \<and> ((\<forall>name. name \<noteq> ''tr_vqqfatjet_score'' \<longrightarrow> arbol s' name = arbol s name)
      \<longrightarrow> AllMerged_XWqqGt0p7 s' = AllMerged_XWqqGt0p7 s)"
proof (intro conjI impI)
  assume h: "arbol s ''ld_vqqfatjet_score'' = Some b \<and> leaf_value b = DoubleLeaf v"
  then show "AllMerged_XWqqGt0p7 s = Inr (v > 0.7)"
    by (simp add: AllMerged_XWqqGt0p7_def getLeaf_double_def and_then_def)
  then show "LambdaCut AllMerged_XWqqGt0p7 s = Inr (v > 0.7, s)"
    by (simp add: LambdaCut_def)
next
  assume "\<forall>name. name \<noteq> ''tr_vqqfatjet_score'' \<longrightarrow> arbol s' name = arbol s name"
  then have "arbol s' ''ld_vqqfatjet_score'' = arbol s ''ld_vqqfatjet_score''"
    by simp
  then have "getLeaf_double (arbol s') ''ld_vqqfatjet_score''
               = getLeaf_double (arbol s) ''ld_vqqfatjet_score''"
    by (rule getLeaf_double_cong)
  then show "AllMerged_XWqqGt0p7 s' = AllMerged_XWqqGt0p7 s"
    by (simp add: AllMerged_XWqqGt0p7_def)
qed

theorem XWqqGt0p7_tests_leading_score_only_witness:
  "getLeaf_double (arbol vqq_state) ''tr_vqqfatjet_score'' = Inr 0.1
   \<and> AllMerged_XWqqGt0p7 vqq_state = Inr True
   \<and> AllMerged_XWqqGt0p7
        (vqq_state\<lparr>arbol := (arbol vqq_state)(''tr_vqqfatjet_score'' := None)\<rparr>) = Inr True"
proof -
  let ?b = "\<lparr>leaf_value = DoubleLeaf 0.8, leaf_default = DoubleLeaf 0.8\<rparr>"
  let ?s' = "vqq_state\<lparr>arbol := (arbol vqq_state)(''tr_vqqfatjet_score'' := None)\<rparr>"
  have ld: "arbol vqq_state ''ld_vqqfatjet_score'' = Some ?b \<and> leaf_value ?b = DoubleLeaf 0.8"
    by (simp add: vqq_state_def newBranch_def)
  have same: "\<forall>name. name \<noteq> ''tr_vqqfatjet_score'' \<longrightarrow> arbol ?s' name = arbol vqq_state name"
    by simp
  have tr: "getLeaf_double (arbol vqq_state) ''tr_vqqfatjet_score'' = Inr 0.1"
    by (simp add: vqq_state_def newBranch_def getLeaf_double_def)
  from XWqqGt0p7_tests_leading_score_only [of vqq_state ?b "0.8" ?s'] ld same tr
  show ?thesis by simp
qed

section \<open>Properties of SelectHbbFatJet\<close>

lemma max_element_from_bound:
  "largest_i < i \<Longrightarrow> max_element_from xs i largest largest_i < i + length xs"
  by (induction xs i largest largest_i rule: max_element_from.induct) auto

lemma max_element_index_nonneg: "0 \<le> max_element_index xs"
  by (simp add: max_element_index_def split: list.splits)

lemma max_element_index_less: "xs \<noteq> [] \<Longrightarrow> max_element_index xs < int (length xs)"
  using max_element_from_bound [of 0 1 "tl xs" "hd xs"]
  by (cases xs) (simp_all add: max_element_index_def)

lemma seq_eq_Inr: "(seq m f = Inr y) = (\<exists>x. m = Inr x \<and> f x = Inr y)"
  by (cases m) (simp_all add: seq_def)

lemma best_hbbjet_nonneg: "best_hbbjet g name = Inr (i, score) \<Longrightarrow> 0 \<le> i"
  by (auto simp add: best_hbbjet_def seq_eq_Inr Let_def max_element_index_nonneg)

lemma evaluate_never_false: "SelectHbbFatJet_evaluate DeltaR use_md s \<noteq> Inr (False, s')"
  unfolding SelectHbbFatJet_evaluate_def
  by (auto simp add: seq_eq_Inr dest: best_hbbjet_nonneg split: if_splits)

lemma best_hbbjet_empty:
  "getVal_Doubles g name = Inr [] \<Longrightarrow> best_hbbjet g name = Inl OutOfRange"
  by (simp add: best_hbbjet_def max_element_index_def vector_at_def)

lemma evaluate_empty:
  "getVal_Doubles (globals s) (if use_md then ''good_fatjet_xbbtags'' else ''good_fatjet_hbbtags'') = Inr []
   \<Longrightarrow> SelectHbbFatJet_evaluate DeltaR use_md s = Inl OutOfRange"
  by (simp add: SelectHbbFatJet_evaluate_def best_hbbjet_empty split: if_splits)

lemma for_loop_returns:
  "(\<And>i acc. i \<in> set is \<Longrightarrow> \<exists>acc'. body i acc = Inr acc') \<Longrightarrow> \<exists>r. for_loop is body acc = Inr r"
proof (induction "is" arbitrary: acc)
  case Nil
  then show ?case by simp
next
  case (Cons i rest)
  from Cons.prems [of i acc] obtain acc' where "body i acc = Inr acc'" by auto
  moreover from Cons.IH [of acc'] Cons.prems obtain r where "for_loop rest body acc' = Inr r"
    by auto
  ultimately show ?case by simp
qed

lemma count_genbquark_returns:
  assumes "genparts_ok ev" and "i < nt_nGenPart ev"
  shows "\<exists>n'. count_genbquark DeltaR ev jet i n = Inr n'"
proof -
  from assms have m: "\<bar>nt_GenPart_pdgId ev ! i\<bar> = 5 \<and> nt_GenPart_status ev ! i = 23
      \<longrightarrow> 0 \<le> nt_GenPart_genPartIdxMother ev ! i
        \<and> nt_GenPart_genPartIdxMother ev ! i < int (nt_nGenPart ev)"
    by (simp add: genparts_ok_def list_all_iff)
  from assms have len: "length (nt_GenPart_pdgId ev) = nt_nGenPart ev"
    "length (nt_GenPart_status ev) = nt_nGenPart ev"
    "length (nt_GenPart_genPartIdxMother ev) = nt_nGenPart ev"
    "length (nt_GenPart_p4 ev) = nt_nGenPart ev"
    by (simp_all add: genparts_ok_def)
  with m assms(2) show ?thesis
    by (simp add: count_genbquark_def vector_at_def)
qed

lemma setLeaf_declared:
  assumes "declared a name (leaf_type_of v)"
  shows "\<exists>a'. setLeaf name v a = Inr a' \<and> (\<forall>m t. declared a m t \<longrightarrow> declared a' m t)"
  using assms by (auto simp add: setLeaf_def declared_def split: option.splits)

lemma getLeaf_double_declared:
  "declared a name TDouble \<Longrightarrow> \<exists>d. getLeaf_double a name = Inr d"
  by (auto simp add: getLeaf_double_def declared_def split: option.splits leaf.splits)

lemma length_is_at:
  "length_is r n \<Longrightarrow> 0 \<le> i \<Longrightarrow> i < int n \<Longrightarrow> \<exists>xs x. r = Inr xs \<and> vector_at xs i = Inr x"
  by (cases r) (simp_all add: length_is_def vector_at_def)

lemma setVal_P4:
  "\<not> isl (getVal_P4 g name) \<Longrightarrow>
     setVal name (P4 v) g = Inr (g(name \<mapsto> P4 v))"
  by (auto simp add: getVal_P4_def setVal_def split: option.splits gval.splits)

lemma getVal_Doubles_upd:
  "name' \<noteq> name \<Longrightarrow> getVal_Doubles (g(name \<mapsto> v)) name' = getVal_Doubles g name'"
  by (simp add: getVal_Doubles_def)

lemma evaluate_passes:
  assumes ok: "hbb_stores_ok (if use_md then ''good_fatjet_xbbtags'' else ''good_fatjet_hbbtags'') s"
    and gen: "nt_isData (nt s) \<or> genparts_ok (nt s)"
  shows "\<exists>s'. SelectHbbFatJet_evaluate DeltaR use_md s = Inr (True, s')"
proof -
  let ?name = "if use_md then ''good_fatjet_xbbtags'' else ''good_fatjet_hbbtags''"
  let ?g = "globals s"
  from ok obtain tags where tags: "getVal_Doubles ?g ?name = Inr tags" "tags \<noteq> []"
    and p4s: "length_is (getVal_P4s ?g ''good_fatjet_p4s'') (length tags)"
    and masses: "length_is (getVal_Doubles ?g ''good_fatjet_masses'') (length tags)"
    and msds: "length_is (getVal_Doubles ?g ''good_fatjet_msoftdrops'') (length tags)"
    and slot: "\<not> isl (getVal_P4 ?g ''hbbjet_p4'')"
    and d0: "declared (arbol s) ''n_hbbjet_genbquarks'' TInt"
      "declared (arbol s) ''hbbjet_score'' TDouble"
      "declared (arbol s) ''hbbjet_pt'' TDouble"
      "declared (arbol s) ''hbbjet_eta'' TDouble"
      "declared (arbol s) ''hbbjet_phi'' TDouble"
      "declared (arbol s) ''hbbjet_mass'' TDouble"
      "declared (arbol s) ''hbbjet_msoftdrop'' TDouble"
      "declared (arbol s) ''LT'' TDouble"
      "declared (arbol s) ''ST'' TDouble"
    unfolding hbb_stores_ok_def by (auto split: sum.splits)
  define i where "i = max_element_index tags"
  have i: "0 \<le> i" "i < int (length tags)"
    using tags(2) by (simp_all add: i_def max_element_index_nonneg max_element_index_less)
  then obtain score where score: "vector_at tags i = Inr score"
    by (auto simp add: vector_at_def)
  have best: "best_hbbjet ?g ?name = Inr (i, score)"
    using tags(1) score by (simp add: best_hbbjet_def i_def)
  from length_is_at [OF p4s i] obtain ps p where
    ps: "getVal_P4s ?g ''good_fatjet_p4s'' = Inr ps" "vector_at ps i = Inr p" by blast
  obtain n where n:
    "(if \<not> nt_isData (nt s)
      then for_loop [0..<nt_nGenPart (nt s)] (count_genbquark DeltaR (nt s) p) 0
      else Inr 0) = Inr n"
  proof (cases "nt_isData (nt s)")
    case True
    then show ?thesis using that by simp
  next
    case False
    with gen have "genparts_ok (nt s)" by simp
    then have "\<exists>r. for_loop [0..<nt_nGenPart (nt s)] (count_genbquark DeltaR (nt s) p) 0 = Inr r"
      by (intro for_loop_returns count_genbquark_returns) simp_all
    with False that show ?thesis by auto
  qed
  let ?g' = "?g(''hbbjet_p4'' \<mapsto> P4 p)"
  have g': "setVal ''hbbjet_p4'' (P4 p) ?g = Inr ?g'"
    using slot by (rule setVal_P4)
  from length_is_at [OF masses i] obtain ms m where
    ms: "getVal_Doubles ?g' ''good_fatjet_masses'' = Inr ms" "vector_at ms i = Inr m"
    by (auto simp add: getVal_Doubles_upd)
  from length_is_at [OF msds i] obtain ds d where
    ds: "getVal_Doubles ?g' ''good_fatjet_msoftdrops'' = Inr ds" "vector_at ds i = Inr d"
    by (auto simp add: getVal_Doubles_upd)
  from setLeaf_declared [of "arbol s" "''n_hbbjet_genbquarks''" "IntLeaf n"] d0
  obtain a1 where a1: "setLeaf ''n_hbbjet_genbquarks'' (IntLeaf n) (arbol s) = Inr a1"
    and d1: "\<And>m t. declared (arbol s) m t \<Longrightarrow> declared a1 m t" by auto
  from setLeaf_declared [of a1 "''hbbjet_score''" "DoubleLeaf score"] d0 d1
  obtain a2 where a2: "setLeaf ''hbbjet_score'' (DoubleLeaf score) a1 = Inr a2"
    and d2: "\<And>m t. declared a1 m t \<Longrightarrow> declared a2 m t" by auto
  from setLeaf_declared [of a2 "''hbbjet_pt''" "DoubleLeaf (pt p)"] d0 d1 d2
  obtain a3 where a3: "setLeaf ''hbbjet_pt'' (DoubleLeaf (pt p)) a2 = Inr a3"
    and d3: "\<And>m t. declared a2 m t \<Longrightarrow> declared a3 m t" by auto
  from setLeaf_declared [of a3 "''hbbjet_eta''" "DoubleLeaf (eta p)"] d0 d1 d2 d3
  obtain a4 where a4: "setLeaf ''hbbjet_eta'' (DoubleLeaf (eta p)) a3 = Inr a4"
    and d4: "\<And>m t. declared a3 m t \<Longrightarrow> declared a4 m t" by auto
  from setLeaf_declared [of a4 "''hbbjet_phi''" "DoubleLeaf (phi p)"] d0 d1 d2 d3 d4
  obtain a5 where a5: "setLeaf ''hbbjet_phi'' (DoubleLeaf (phi p)) a4 = Inr a5"
    and d5: "\<And>m t. declared a4 m t \<Longrightarrow> declared a5 m t" by auto
  from setLeaf_declared [of a5 "''hbbjet_mass''" "DoubleLeaf m"] d0 d1 d2 d3 d4 d5
  obtain a6 where a6: "setLeaf ''hbbjet_mass'' (DoubleLeaf m) a5 = Inr a6"
    and d6: "\<And>m t. declared a5 m t \<Longrightarrow> declared a6 m t" by auto
  from setLeaf_declared [of a6 "''hbbjet_msoftdrop''" "DoubleLeaf d"] d0 d1 d2 d3 d4 d5 d6
  obtain a7 where a7: "setLeaf ''hbbjet_msoftdrop'' (DoubleLeaf d) a6 = Inr a7"
    and d7: "\<And>m t. declared a6 m t \<Longrightarrow> declared a7 m t" by auto
  from getLeaf_double_declared [of a7 "''LT''"] d0 d1 d2 d3 d4 d5 d6 d7
  obtain lt where lt: "getLeaf_double a7 ''LT'' = Inr lt" by auto
  from setLeaf_declared [of a7 "''ST''" "DoubleLeaf (lt + pt p)"] d0 d1 d2 d3 d4 d5 d6 d7
  obtain a8 where a8: "setLeaf ''ST'' (DoubleLeaf (lt + pt p)) a7 = Inr a8" by auto
  have "SelectHbbFatJet_evaluate DeltaR use_md s = Inr (True, s\<lparr>arbol := a8, globals := ?g'\<rparr>)"
    unfolding SelectHbbFatJet_evaluate_def
    using best i(1) ps n g' ms ds a1 a2 a3 a4 a5 a6 a7 lt a8
    by (simp split: if_splits)
  then show ?thesis by blast
qed

lemma declared_initBranches:
  "declared (initBranches core) ''n_hbbjet_genbquarks'' TInt"
  "declared (initBranches core) ''hbbjet_score'' TDouble"
  "declared (initBranches core) ''hbbjet_pt'' TDouble"
  "declared (initBranches core) ''hbbjet_eta'' TDouble"
  "declared (initBranches core) ''hbbjet_phi'' TDouble"
  "declared (initBranches core) ''hbbjet_mass'' TDouble"
  "declared (initBranches core) ''hbbjet_msoftdrop'' TDouble"
  "declared (initBranches core) ''LT'' TDouble"
  "declared (initBranches core) ''ST'' TDouble"
  by (simp_all add: initBranches_def VBSWH_branches_def newBranch_def declared_def)

lemma hbb_state_ok: "hbb_stores_ok ''good_fatjet_xbbtags'' hbb_state"
  by (simp add: hbb_stores_ok_def declared_initBranches)
     (simp add: hbb_state_def declared_initBranches getVal_Doubles_def getVal_P4s_def getVal_P4_def
      length_is_def initGlobals_def newVar_def)

lemma hbb_event_ok: "genparts_ok hbb_event"
proof -
  have "[0..<3] = [0, 1, 2::nat]" by (simp add: upt_rec)
  then show ?thesis
    by (simp add: genparts_ok_def hbb_event_def mc_event_def)
qed

lemma hbb_state_reset_tags: "getVal_Doubles (resetVars (globals hbb_state)) ''good_fatjet_xbbtags'' = Inr []"
  by (simp add: hbb_state_def resetVars_def getVal_Doubles_def)


text \<open>
  Claim C8. \<open>SelectHbbFatJet::evaluate\<close> never returns false, on any stores: the index
  computed by \<open>max_element\<close> is never negative, so the guard \<open>best_hbbjet_i < 0\<close> is dead.
  On an empty tag list the \<open>at(0)\<close> access throws \<open>out_of_range\<close> instead. With a
  non-empty tag list, parallel fat-jet lists, the written leaves declared and a well-formed
  generator record, the cut returns true.
\<close>

theorem SelectHbbFatJet_never_returns_false:
  "SelectHbbFatJet_evaluate DeltaR use_md s \<noteq> Inr (False, s')
   \<and> 0 \<le> max_element_index tags
   \<and> (getVal_Doubles (globals s)
         (if use_md then ''good_fatjet_xbbtags'' else ''good_fatjet_hbbtags'') = Inr []
       \<longrightarrow> SelectHbbFatJet_evaluate DeltaR use_md s = Inl OutOfRange)
   \<and> (hbb_stores_ok (if use_md then ''good_fatjet_xbbtags'' else ''good_fatjet_hbbtags'') s
         \<and> (nt_isData (nt s) \<or> genparts_ok (nt s))
       \<longrightarrow> (\<exists>s''. SelectHbbFatJet_evaluate DeltaR use_md s = Inr (True, s'')))"
  using evaluate_never_false [of DeltaR use_md s s'] max_element_index_nonneg [of tags]
    evaluate_empty [of s use_md DeltaR] evaluate_passes [of use_md s DeltaR]
  by blast

theorem SelectHbbFatJet_never_returns_false_witness:
  "hbb_stores_ok ''good_fatjet_xbbtags'' hbb_state
   \<and> genparts_ok (nt hbb_state)
   \<and> (\<exists>s'. SelectHbbFatJet_evaluate sample_DeltaR True hbb_state = Inr (True, s'))
   \<and> getVal_Doubles (globals (hbb_state\<lparr>globals := resetVars (globals hbb_state)\<rparr>))
        ''good_fatjet_xbbtags'' = Inr []
   \<and> SelectHbbFatJet_evaluate sample_DeltaR True
        (hbb_state\<lparr>globals := resetVars (globals hbb_state)\<rparr>) = Inl OutOfRange"
proof -
  have gen: "genparts_ok (nt hbb_state)"
    using hbb_event_ok by (simp add: hbb_state_def)
  have empty: "getVal_Doubles (globals (hbb_state\<lparr>globals := resetVars (globals hbb_state)\<rparr>))
        ''good_fatjet_xbbtags'' = Inr []"
    using hbb_state_reset_tags by simp
  from SelectHbbFatJet_never_returns_false [of sample_DeltaR True hbb_state]
    hbb_state_ok gen
  have pass: "\<exists>s'. SelectHbbFatJet_evaluate sample_DeltaR True hbb_state = Inr (True, s')"
    by simp
  from SelectHbbFatJet_never_returns_false
    [of sample_DeltaR True "hbb_state\<lparr>globals := resetVars (globals hbb_state)\<rparr>"] empty
  have "SelectHbbFatJet_evaluate sample_DeltaR True
        (hbb_state\<lparr>globals := resetVars (globals hbb_state)\<rparr>) = Inl OutOfRange"
    by simp
  with hbb_state_ok gen pass empty show ?thesis by blast
qed

section \<open>Properties of the driver\<close>

lemma traversal_start_simps:
  "arbol (traversal_start GetEntry entry d) = resetBranches (arbol (analysis d))"
  "globals (traversal_start GetEntry entry d) = resetVars (globals (analysis d))"
  "nt (traversal_start GetEntry entry d) = GetEntry entry (nt (analysis d))"
  by (simp_all add: traversal_start_def nt_GetEntry_def globals_resetVars_def
      arbol_resetBranches_def)

lemma event_processing:
  "\<not> (cli_debug d \<and> n_events_processed d = 10000) \<Longrightarrow>
   event run GetEntry entry d =
     seq (run (cutflow d) (traversal_start GetEntry entry d)) (\<lambda>(passed, c, s).
       Inr (if passed then fill (d\<lparr>cutflow := c, analysis := s\<rparr>)
            else d\<lparr>cutflow := c, analysis := s\<rparr>))"
  by (auto simp add: event_def Let_def traversal_start_def nt_GetEntry_def globals_resetVars_def
      arbol_resetBranches_def fill_def seq_def split: sum.splits)

lemma event_processing_fields:
  "\<not> (cli_debug d \<and> n_events_processed d = 10000) \<Longrightarrow>
   event run GetEntry entry d =
     seq (run (cutflow d) (traversal_start GetEntry entry d)) (\<lambda>(passed, c, s).
       Inr \<lparr>analysis = s, cutflow = c,
            ttree = (if passed then ttree d @ [current_row (arbol s)] else ttree d),
            n_events_processed = n_events_processed d,
            stop_requested = stop_requested d,
            cli_debug = cli_debug d\<rparr>)"
  by (cases d)
     (auto simp add: event_def Let_def traversal_start_def nt_GetEntry_def globals_resetVars_def
      arbol_resetBranches_def fill_def seq_def split: sum.splits)

lemma resetBranches_default:
  "resetBranches a name = Some b \<Longrightarrow> leaf_value b = leaf_default b"
  by (auto simp add: resetBranches_def)

lemma resetVars_unset:
  "resetVars g name = Some v \<Longrightarrow> v = unset_of (gtype_of v)"
  by (cases "g name"; cases "the (g name)") (auto simp add: resetVars_def)

lemma gtype_of_unset_of [simp]: "gtype_of (unset_of t) = t"
  by (cases t) simp_all

lemma same_declarations_reset:
  "arbol s' = resetBranches (arbol s) \<Longrightarrow> globals s' = resetVars (globals s)
   \<Longrightarrow> same_declarations s s'"
  by (simp add: same_declarations_def resetBranches_def resetVars_def option.map_comp comp_def)

lemma resetBranches_same:
  assumes "\<forall>name. map_option leaf_default (a name) = map_option leaf_default (a' name)"
  shows "resetBranches a' = resetBranches a"
proof
  fix name
  from assms have "map_option leaf_default (a name) = map_option leaf_default (a' name)" ..
  then show "resetBranches a' name = resetBranches a name"
    by (cases "a name"; cases "a' name") (simp_all add: resetBranches_def)
qed

lemma resetVars_same:
  assumes "\<forall>name. map_option gtype_of (g name) = map_option gtype_of (g' name)"
  shows "resetVars g' = resetVars g"
proof
  fix name
  from assms have "map_option gtype_of (g name) = map_option gtype_of (g' name)" ..
  then show "resetVars g' name = resetVars g name"
    by (cases "g name"; cases "g' name") (simp_all add: resetVars_def)
qed

lemma traversal_start_same:
  assumes "same_declarations (analysis d) a'" and "nt a' = nt (analysis d)"
  shows "traversal_start GetEntry entry (d\<lparr>analysis := a'\<rparr>) = traversal_start GetEntry entry d"
  using assms resetBranches_same [of "arbol (analysis d)" "arbol a'"]
    resetVars_same [of "globals (analysis d)" "globals a'"]
  by (simp add: same_declarations_def traversal_start_def nt_GetEntry_def globals_resetVars_def
      arbol_resetBranches_def)

lemma initBranches_defaults:
  "list_all (\<lambda>(name, dflt). map_option leaf_default (initBranches core name) = Some dflt)
     VBSWH_branches"
  by (simp add: initBranches_def VBSWH_branches_def newBranch_def)

lemma resetBranches_row:
  "map_option leaf_default (a name) = Some dflt \<Longrightarrow> current_row (resetBranches a) name = Some dflt"
  by (cases "a name") (simp_all add: current_row_def resetBranches_def)

lemma reset_restores_declared_defaults:
  assumes "\<forall>name. map_option leaf_default (a name) = map_option leaf_default (initBranches core name)"
  shows "list_all (\<lambda>(name, dflt). current_row (resetBranches a) name = Some dflt) VBSWH_branches"
proof -
  have "current_row (resetBranches a) name = Some dflt"
    if "map_option leaf_default (initBranches core name) = Some dflt" for name dflt
    using that assms by (simp add: resetBranches_row)
  with initBranches_defaults [of core] show ?thesis
    by (auto simp add: list_all_iff)
qed

text \<open>
  Claim C1. For a record that the callback processes (the debug stop does not apply): when
  the traversal returns ACCEPT the callback appends exactly one row, the row store's content
  as the traversal left it, to the output tree; when it returns REJECT the tree is left as it
  was; so the tree changes if and only if the traversal accepted. When the traversal throws,
  the callback throws and commits nothing.
\<close>

theorem row_filled_iff_accept:
  assumes "\<not> (cli_debug d \<and> n_events_processed d = 10000)"
  shows "(run (cutflow d) (traversal_start GetEntry entry d) = Inr (passed, c, s) \<longrightarrow>
            (\<exists>d'. event run GetEntry entry d = Inr d'
               \<and> ttree d' = (if passed then ttree d @ [current_row (arbol s)] else ttree d)
               \<and> (ttree d' \<noteq> ttree d) = passed
               \<and> analysis d' = s \<and> cutflow d' = c))
       \<and> (run (cutflow d) (traversal_start GetEntry entry d) = Inl e \<longrightarrow>
            event run GetEntry entry d = Inl e)"
  using assms by (simp add: event_processing fill_def)

theorem row_filled_iff_accept_witness:
  "\<not> (cli_debug (debug_driver 7) \<and> n_events_processed (debug_driver 7) = 10000)
   \<and> sample_run () (traversal_start sample_GetEntry 0 (debug_driver 7))
       = Inr (True, (), traversal_start sample_GetEntry 0 (debug_driver 7))
   \<and> (\<exists>d'. event sample_run sample_GetEntry 0 (debug_driver 7) = Inr d'
         \<and> ttree d' = [current_row (arbol (traversal_start sample_GetEntry 0 (debug_driver 7)))])
   \<and> (\<exists>d'. event (\<lambda>c s. Inr (False, c, s)) sample_GetEntry 0 (debug_driver 7) = Inr d'
         \<and> ttree d' = [])
   \<and> event (\<lambda>c s. Inl StoreError) sample_GetEntry 0 (debug_driver 7) = Inl StoreError"
proof -
  let ?d = "debug_driver 7"
  let ?s = "traversal_start sample_GetEntry 0 ?d"
  have go: "\<not> (cli_debug ?d \<and> n_events_processed ?d = 10000)"
    by (simp add: debug_driver_def)
  have "getLeaf_double (arbol ?s) ''lep_pt'' = Inr (- 999)"
    by (simp add: traversal_start_simps debug_driver_def used_state_def resetBranches_def
        getLeaf_double_def)
  then have acc: "sample_run () ?s = Inr (True, (), ?s)"
    by (simp add: sample_run_def)
  have tt: "ttree ?d = []" "cutflow ?d = ()"
    by (simp_all add: debug_driver_def)
  from row_filled_iff_accept [OF go, of sample_run sample_GetEntry 0 True "()" ?s] acc tt
  have a: "\<exists>d'. event sample_run sample_GetEntry 0 ?d = Inr d' \<and> ttree d' = [current_row (arbol ?s)]"
    by auto
  from row_filled_iff_accept [OF go, of "\<lambda>c s. Inr (False, c, s)" sample_GetEntry 0 False "()" ?s] tt
  have r: "\<exists>d'. event (\<lambda>c s. Inr (False, c, s)) sample_GetEntry 0 ?d = Inr d' \<and> ttree d' = []"
    by auto
  from row_filled_iff_accept [OF go, of "\<lambda>c s. Inl StoreError" sample_GetEntry 0 _ _ _ StoreError]
  have f: "event (\<lambda>c s. Inl StoreError) sample_GetEntry 0 ?d = Inl StoreError"
    by simp
  from go acc a r f show ?thesis by blast
qed

text \<open>
  Claim C2. For a record that the callback processes, the traversal is run on the stores as
  \<open>resetBranches\<close> and \<open>resetVars\<close> leave them: every declared field holds its default and
  every declared slot its unset value, the declarations are those of before, and neither the
  stores handed to the traversal nor the callback's result depend on the values that the
  previous record left (two starting states with the same declarations give the same
  result). When the fields are those of \<open>initBranches\<close>, each holds the default written
  there (-999, or false for \<open>passes_bveto\<close>).
\<close>

theorem stores_reset_before_traversal:
  assumes "\<not> (cli_debug d \<and> n_events_processed d = 10000)"
  shows "event run GetEntry entry d =
           seq (run (cutflow d) (traversal_start GetEntry entry d)) (\<lambda>(passed, c, s).
             Inr (if passed then fill (d\<lparr>cutflow := c, analysis := s\<rparr>)
                  else d\<lparr>cutflow := c, analysis := s\<rparr>))
       \<and> (\<forall>name b. arbol (traversal_start GetEntry entry d) name = Some b
             \<longrightarrow> leaf_value b = leaf_default b)
       \<and> (\<forall>name v. globals (traversal_start GetEntry entry d) name = Some v
             \<longrightarrow> v = unset_of (gtype_of v))
       \<and> same_declarations (analysis d) (traversal_start GetEntry entry d)
       \<and> (\<forall>a'. same_declarations (analysis d) a' \<and> nt a' = nt (analysis d)
             \<longrightarrow> traversal_start GetEntry entry (d\<lparr>analysis := a'\<rparr>)
                   = traversal_start GetEntry entry d
               \<and> event run GetEntry entry (d\<lparr>analysis := a'\<rparr>) = event run GetEntry entry d)
       \<and> ((\<forall>name. map_option leaf_default (arbol (analysis d) name)
                     = map_option leaf_default (initBranches core name))
             \<longrightarrow> list_all (\<lambda>(name, dflt).
                     current_row (arbol (traversal_start GetEntry entry d)) name = Some dflt)
                   VBSWH_branches)"
proof (intro conjI allI impI)
  show "event run GetEntry entry d =
           seq (run (cutflow d) (traversal_start GetEntry entry d)) (\<lambda>(passed, c, s).
             Inr (if passed then fill (d\<lparr>cutflow := c, analysis := s\<rparr>)
                  else d\<lparr>cutflow := c, analysis := s\<rparr>))"
    using assms by (rule event_processing)
next
  fix name b
  assume "arbol (traversal_start GetEntry entry d) name = Some b"
  then show "leaf_value b = leaf_default b"
    by (simp add: traversal_start_simps resetBranches_default)
next
  fix name v
  assume "globals (traversal_start GetEntry entry d) name = Some v"
  then show "v = unset_of (gtype_of v)"
    by (simp add: traversal_start_simps resetVars_unset)
next
  show "same_declarations (analysis d) (traversal_start GetEntry entry d)"
    by (rule same_declarations_reset) (simp_all add: traversal_start_simps)
next
  fix a'
  assume a': "same_declarations (analysis d) a' \<and> nt a' = nt (analysis d)"
  then show same: "traversal_start GetEntry entry (d\<lparr>analysis := a'\<rparr>)
      = traversal_start GetEntry entry d"
    by (simp add: traversal_start_same)
  from assms have go': "\<not> (cli_debug (d\<lparr>analysis := a'\<rparr>) \<and> n_events_processed (d\<lparr>analysis := a'\<rparr>) = 10000)"
    by simp
  show "event run GetEntry entry (d\<lparr>analysis := a'\<rparr>) = event run GetEntry entry d"
    using same
    by (simp add: event_processing_fields [OF assms] event_processing_fields [OF go']
        cong: if_cong)
next
  assume "\<forall>name. map_option leaf_default (arbol (analysis d) name)
                     = map_option leaf_default (initBranches core name)"
  then show "list_all (\<lambda>(name, dflt).
                     current_row (arbol (traversal_start GetEntry entry d)) name = Some dflt)
                   VBSWH_branches"
    using reset_restores_declared_defaults [of "arbol (analysis d)" core]
    by (simp add: traversal_start_simps)
qed

theorem stores_reset_before_traversal_witness:
  "\<not> (cli_debug (debug_driver 7) \<and> n_events_processed (debug_driver 7) = 10000)
   \<and> getLeaf_double (arbol (analysis (debug_driver 7))) ''lep_pt'' = Inr 55
   \<and> getLeaf_bool (arbol (analysis (debug_driver 7))) ''passes_bveto'' = Inr True
   \<and> same_declarations (analysis (debug_driver 7)) fresh_state
   \<and> list_all (\<lambda>(name, dflt).
          current_row (arbol (traversal_start sample_GetEntry 0 (debug_driver 7))) name = Some dflt)
        VBSWH_branches
   \<and> event sample_run sample_GetEntry 0 ((debug_driver 7)\<lparr>analysis := fresh_state\<rparr>)
       = event sample_run sample_GetEntry 0 (debug_driver 7)"
proof -
  let ?d = "debug_driver 7"
  have go: "\<not> (cli_debug ?d \<and> n_events_processed ?d = 10000)"
    by (simp add: debug_driver_def)
  have old: "getLeaf_double (arbol (analysis ?d)) ''lep_pt'' = Inr 55"
    "getLeaf_bool (arbol (analysis ?d)) ''passes_bveto'' = Inr True"
    by (simp_all add: debug_driver_def used_state_def getLeaf_double_def getLeaf_bool_def)
  have decl: "\<forall>name. map_option leaf_default (arbol (analysis ?d) name)
                     = map_option leaf_default (initBranches Map.empty name)"
    by (simp add: debug_driver_def used_state_def initBranches_def VBSWH_branches_def
        newBranch_def)
  have same: "same_declarations (analysis ?d) fresh_state"
    by (simp add: same_declarations_def debug_driver_def used_state_def fresh_state_def
        initBranches_def VBSWH_branches_def newBranch_def initGlobals_def newVar_def)
  have rec: "nt fresh_state = nt (analysis ?d)"
    by (simp add: debug_driver_def used_state_def fresh_state_def)
  from stores_reset_before_traversal [OF go, of sample_run sample_GetEntry 0 Map.empty]
    go old decl same rec
  show ?thesis by blast
qed

lemma event_keeps_stop_request:
  assumes "\<not> (cli_debug d \<and> n_events_processed d = 10000)"
    and "event run GetEntry entry d = Inr d'"
  shows "stop_requested d' = stop_requested d"
  using assms
  by (auto simp add: event_processing_fields seq_eq_Inr)

text \<open>
  Claim C3. When the debug flag is set and 10000 events have been processed, the callback
  only requests the stop of the loop: it returns without calling the traversal (whatever
  \<open>run\<close> is), and the stores, the cutflow and the output tree are unchanged. In every other
  call the callback leaves the stop request as it was.
\<close>

theorem debug_stop_skips_the_record:
  "(cli_debug d \<and> n_events_processed d = 10000 \<longrightarrow>
      event run GetEntry entry d = Inr (stop d)
      \<and> stop_requested (stop d)
      \<and> analysis (stop d) = analysis d \<and> cutflow (stop d) = cutflow d
      \<and> ttree (stop d) = ttree d)
   \<and> (\<not> (cli_debug d \<and> n_events_processed d = 10000) \<longrightarrow>
        (\<forall>d'. event run GetEntry entry d = Inr d' \<longrightarrow> stop_requested d' = stop_requested d))"
  using event_keeps_stop_request [of d run GetEntry entry]
  by (auto simp add: event_def stop_def)

theorem debug_stop_skips_the_record_witness:
  "cli_debug (debug_driver 10000) \<and> n_events_processed (debug_driver 10000) = 10000
   \<and> event sample_run sample_GetEntry 0 (debug_driver 10000)
       = Inr ((debug_driver 10000)\<lparr>stop_requested := True\<rparr>)
   \<and> event (\<lambda>c s. Inl StoreError) sample_GetEntry 0 (debug_driver 10000)
       = Inr ((debug_driver 10000)\<lparr>stop_requested := True\<rparr>)
   \<and> \<not> (cli_debug (debug_driver 7) \<and> n_events_processed (debug_driver 7) = 10000)
   \<and> (\<exists>d'. event sample_run sample_GetEntry 0 (debug_driver 7) = Inr d' \<and> \<not> stop_requested d')"
proof -
  have at: "cli_debug (debug_driver 10000) \<and> n_events_processed (debug_driver 10000) = 10000"
    by (simp add: debug_driver_def)
  have before: "\<not> (cli_debug (debug_driver 7) \<and> n_events_processed (debug_driver 7) = 10000)"
    by (simp add: debug_driver_def)
  have "getLeaf_double (arbol (traversal_start sample_GetEntry 0 (debug_driver 7))) ''lep_pt''
          = Inr (- 999)"
    by (simp add: traversal_start_simps debug_driver_def used_state_def resetBranches_def
        getLeaf_double_def)
  then obtain d' where d': "event sample_run sample_GetEntry 0 (debug_driver 7) = Inr d'"
    using before by (simp add: event_processing sample_run_def)
  have quiet: "\<not> stop_requested (debug_driver 7)"
    by (simp add: debug_driver_def)
  from debug_stop_skips_the_record [of "debug_driver 7" sample_run sample_GetEntry 0]
    before d' quiet
  have later: "\<exists>d'. event sample_run sample_GetEntry 0 (debug_driver 7) = Inr d' \<and> \<not> stop_requested d'"
    by simp
  from debug_stop_skips_the_record [of "debug_driver 10000" sample_run sample_GetEntry 0] at
  have e1: "event sample_run sample_GetEntry 0 (debug_driver 10000) = Inr (stop (debug_driver 10000))"
    by blast
  from debug_stop_skips_the_record
    [of "debug_driver 10000" "\<lambda>c s. Inl StoreError" sample_GetEntry 0] at
  have e2: "event (\<lambda>c s. Inl StoreError) sample_GetEntry 0 (debug_driver 10000)
              = Inr (stop (debug_driver 10000))"
    by blast
  have "stop (debug_driver 10000) = (debug_driver 10000)\<lparr>stop_requested := True\<rparr>"
    by (simp add: stop_def)
  with e1 e2 at before later show ?thesis
    by (intro conjI) simp_all
qed

section \<open>Properties of the traversal\<close>

lemma walk_Cut_cases:
  assumes "walk (Cut nm ev wt r l) k trail w s = Inr out"
  obtains
    (pass_on) s' c where "ev s = Inr (True, s')" "wt s' = Inr c" "is_Cut r"
      "walk r (k(nm := count_pass (w * c) (k nm))) (trail @ [(nm, Some c)]) (w * c) s' = Inr out"
  | (pass_end) s' c where "ev s = Inr (True, s')" "wt s' = Inr c" "\<not> is_Cut r"
      "out = \<lparr>accepted = True, cumulative_weight = w * c, terminal_cut = nm,
              visited = trail @ [(nm, Some c)],
              counters = k(nm := count_pass (w * c) (k nm)), stores = s'\<rparr>"
  | (fail_on) s' where "ev s = Inr (False, s')" "is_Cut l"
      "walk l (k(nm := count_fail (k nm))) (trail @ [(nm, None)]) w s' = Inr out"
  | (fail_end) s' where "ev s = Inr (False, s')" "\<not> is_Cut l"
      "out = \<lparr>accepted = False, cumulative_weight = w, terminal_cut = nm,
              visited = trail @ [(nm, None)],
              counters = k(nm := count_fail (k nm)), stores = s'\<rparr>"
  using assms
  by (auto simp add: Let_def split: sum.splits if_splits prod.splits)

lemma names_of_cut: "is_Cut c \<Longrightarrow> names_of c = cut_name c # below c"
  by (cases c) simp_all

text \<open>The log of a walk: the given log, then the start node, then nodes below it.\<close>

lemma walk_log:
  "walk c k trail w s = Inr out \<Longrightarrow>
     \<exists>x rest. visited out = trail @ (cut_name c, x) # rest
        \<and> set (map fst rest) \<subseteq> set (below c)"
proof (induction c arbitrary: k trail w s)
  case Null
  then show ?case by simp
next
  case (Cut nm ev wt r l)
  from Cut.prems show ?case
  proof (cases rule: walk_Cut_cases)
    case (pass_on s' c)
    from Cut.IH(1) [OF pass_on(4)] obtain x rest where
      v: "visited out = (trail @ [(nm, Some c)]) @ (cut_name r, x) # rest"
      and sub: "set (map fst rest) \<subseteq> set (below r)" by blast
    from sub names_of_cut [OF pass_on(3)]
    have "set (map fst ((cut_name r, x) # rest)) \<subseteq> set (below (Cut nm ev wt r l))"
      by auto
    with v show ?thesis by auto
  next
    case (pass_end s' c)
    then show ?thesis by simp
  next
    case (fail_on s')
    from Cut.IH(2) [OF fail_on(3)] obtain x rest where
      v: "visited out = (trail @ [(nm, None)]) @ (cut_name l, x) # rest"
      and sub: "set (map fst rest) \<subseteq> set (below l)" by blast
    from sub names_of_cut [OF fail_on(2)]
    have "set (map fst ((cut_name l, x) # rest)) \<subseteq> set (below (Cut nm ev wt r l))"
      by auto
    with v show ?thesis by auto
  next
    case (fail_end s')
    then show ?thesis by simp
  qed
qed

text \<open>The statistics play no part in a walk.\<close>

lemma walk_counters_irrelevant:
  "map_sum id observed (walk c k trail w s) = map_sum id observed (walk c k' trail w s)"
proof (induction c arbitrary: k k' trail w s)
  case Null
  then show ?case by simp
next
  case (Cut nm ev wt r l)
  show ?case
  proof (cases "ev s")
    case (Inl e)
    then show ?thesis by simp
  next
    case (Inr res)
    obtain passed s' where res: "res = (passed, s')" by (cases res)
    show ?thesis
    proof (cases passed)
      case True
      show ?thesis
      proof (cases "wt s'")
        case (Inl e)
        with Inr res True show ?thesis by simp
      next
        case wt: (Inr c)
        with Inr res True Cut.IH(1) show ?thesis
          by (simp add: Let_def observed_def)
      qed
    next
      case False
      with Inr res Cut.IH(2) show ?thesis
        by (simp add: Let_def observed_def)
    qed
  qed
qed

lemma walk_new:
  assumes "walk c k trail w s = Inr out"
  obtains new where "visited out = trail @ new" "set (map fst new) \<subseteq> set (names_of c)"
    "new \<noteq> []" "fst (hd new) = cut_name c"
proof -
  from walk_log [OF assms] obtain x rest where
    v: "visited out = trail @ (cut_name c, x) # rest" and sub: "set (map fst rest) \<subseteq> set (below c)"
    by blast
  from assms have "is_Cut c" by (cases c) simp_all
  with sub have "set (map fst ((cut_name c, x) # rest)) \<subseteq> set (names_of c)"
    by (auto simp add: names_of_cut)
  with v that [of "(cut_name c, x) # rest"] show ?thesis by simp
qed

lemma entries_pass [simp]:
  "entries (k(nm := count_pass w (k nm))) x = entries k x + (if x = nm then 1 else 0)"
  by (simp add: entries_def count_pass_def)

lemma entries_fail [simp]:
  "entries (k(nm := count_fail (k nm))) x = entries k x + (if x = nm then 1 else 0)"
  by (simp add: entries_def count_fail_def)

text \<open>Each visit of a node adds one to its entry count.\<close>

lemma walk_entries:
  "walk c k trail w s = Inr out \<Longrightarrow>
     \<exists>new. visited out = trail @ new
       \<and> (\<forall>x. entries (counters out) x = entries k x + count_list (map fst new) x)"
proof (induction c arbitrary: k trail w s)
  case Null
  then show ?case by simp
next
  case (Cut nm ev wt r l)
  from Cut.prems show ?case
  proof (cases rule: walk_Cut_cases)
    case (pass_on s' c)
    from Cut.IH(1) [OF pass_on(4)] obtain new where
      "visited out = (trail @ [(nm, Some c)]) @ new"
      "\<forall>x. entries (counters out) x
           = entries (k(nm := count_pass (w * c) (k nm))) x + count_list (map fst new) x"
      by blast
    then have "visited out = trail @ ((nm, Some c) # new)
        \<and> (\<forall>x. entries (counters out) x
              = entries k x + count_list (map fst ((nm, Some c) # new)) x)"
      by simp
    then show ?thesis by blast
  next
    case (pass_end s' c)
    then have "visited out = trail @ [(nm, Some c)]
        \<and> (\<forall>x. entries (counters out) x = entries k x + count_list (map fst [(nm, Some c)]) x)"
      by simp
    then show ?thesis by blast
  next
    case (fail_on s')
    from Cut.IH(2) [OF fail_on(3)] obtain new where
      "visited out = (trail @ [(nm, None)]) @ new"
      "\<forall>x. entries (counters out) x
           = entries (k(nm := count_fail (k nm))) x + count_list (map fst new) x"
      by blast
    then have "visited out = trail @ ((nm, None) # new)
        \<and> (\<forall>x. entries (counters out) x
              = entries k x + count_list (map fst ((nm, None) # new)) x)"
      by simp
    then show ?thesis by blast
  next
    case (fail_end s')
    then have "visited out = trail @ [(nm, None)]
        \<and> (\<forall>x. entries (counters out) x = entries k x + count_list (map fst [(nm, None)]) x)"
      by simp
    then show ?thesis by blast
  qed
qed

text \<open>In a tree with unique names no node is visited twice.\<close>

lemma walk_distinct:
  "walk c k trail w s = Inr out \<Longrightarrow> distinct (names_of c) \<Longrightarrow>
     \<exists>new. visited out = trail @ new \<and> distinct (map fst new)"
proof (induction c arbitrary: k trail w s)
  case Null
  then show ?case by simp
next
  case (Cut nm ev wt r l)
  from Cut.prems(2) have dr: "distinct (names_of r)" and dl: "distinct (names_of l)"
    and fresh: "nm \<notin> set (names_of r)" "nm \<notin> set (names_of l)"
    by simp_all
  from Cut.prems(1) show ?case
  proof (cases rule: walk_Cut_cases)
    case (pass_on s' c)
    from Cut.IH(1) [OF pass_on(4) dr] obtain new where
      new: "visited out = (trail @ [(nm, Some c)]) @ new" "distinct (map fst new)" by blast
    from pass_on(4) obtain new' where
      "visited out = (trail @ [(nm, Some c)]) @ new'" "set (map fst new') \<subseteq> set (names_of r)"
      by (rule walk_new)
    with new fresh have "nm \<notin> set (map fst new)" by auto
    with new have "visited out = trail @ ((nm, Some c) # new)
        \<and> distinct (map fst ((nm, Some c) # new))"
      by simp
    then show ?thesis by blast
  next
    case (pass_end s' c)
    then have "visited out = trail @ [(nm, Some c)] \<and> distinct (map fst [(nm, Some c)])"
      by simp
    then show ?thesis by blast
  next
    case (fail_on s')
    from Cut.IH(2) [OF fail_on(3) dl] obtain new where
      new: "visited out = (trail @ [(nm, None)]) @ new" "distinct (map fst new)" by blast
    from fail_on(3) obtain new' where
      "visited out = (trail @ [(nm, None)]) @ new'" "set (map fst new') \<subseteq> set (names_of l)"
      by (rule walk_new)
    with new fresh have "nm \<notin> set (map fst new)" by auto
    with new have "visited out = trail @ ((nm, None) # new)
        \<and> distinct (map fst ((nm, None) # new))"
      by simp
    then show ?thesis by blast
  next
    case (fail_end s')
    then have "visited out = trail @ [(nm, None)] \<and> distinct (map fst [(nm, None)])"
      by simp
    then show ?thesis by blast
  qed
qed

lemma count_list_distinct:
  "distinct xs \<Longrightarrow> count_list xs x = (if x \<in> set xs then 1 else 0)"
  by (induction xs) auto

text \<open>From the start of a traversal: the entry count of a node grows by one exactly when
  the traversal visits it.\<close>

lemma walk_entries_visits:
  assumes "walk c k [] w s = Inr out" and "distinct (names_of c)"
  shows "entries (counters out) x = entries k x + (if visits out x then 1 else 0)"
proof -
  from walk_entries [OF assms(1)]
  have e: "entries (counters out) x = entries k x + count_list (map fst (visited out)) x"
    by simp
  from walk_distinct [OF assms] have "distinct (map fst (visited out))"
    by simp
  then have "count_list (map fst (visited out)) x = (if visits out x then 1 else 0)"
    by (simp only: visits_def count_list_distinct)
  with e show ?thesis by simp
qed

lemma initCutflow_builds_tree: "VBSVVHJets_initCutflow ext = Inr (VBSVVHJets_tree ext)"
  by (simp add: VBSVVHJets_initCutflow_def VBSVVHJets_tree_def Exactly3FatJets_cut_def
      AllMerged_chain_def SemiMerged_chain_def setRoot_def cutflow_insert_def
      external_cut_def lambda_cut_def)

lemma names_of_AllMerged_chain:
  "names_of (AllMerged_chain ext) =
     [''AllMerged_SelectVVHFatJets'', ''AllMerged_SelectJets'', ''AllMerged_SelectVBSJetsMaxE'',
      ''AllMerged_SaveVariables'', ''AllMerged_ApplyAk4GlobalBVeto'', ''AllMerged_STGt1200'',
      ''AllMerged_MjjGt500'', ''AllMerged_detajjGt3'', ''AllMerged_MjjGt600_detajjGt4'',
      ''AllMerged_XbbGt0p9'', ''AllMerged_XWqqGt0p7'', ''AllMerged_STGt1500'']"
  by (simp add: AllMerged_chain_def external_cut_def lambda_cut_def)

lemma names_of_SemiMerged_chain:
  "names_of (SemiMerged_chain ext) =
     [''SemiMerged_SelectVVHFatJets'', ''SemiMerged_SelectJets'', ''SemiMerged_Geq4Jets'',
      ''SemiMerged_SelectVBSJetsMaxE'', ''SemiMerged_SelectVJets'', ''SemiMerged_SaveVariables'',
      ''SemiMerged_MjjGt500'']"
  by (simp add: SemiMerged_chain_def external_cut_def lambda_cut_def)

lemma AllMerged_chain_head:
  "is_Cut (AllMerged_chain ext)" "cut_name (AllMerged_chain ext) = ''AllMerged_SelectVVHFatJets''"
  by (simp_all add: AllMerged_chain_def external_cut_def)

lemma SemiMerged_chain_head:
  "is_Cut (SemiMerged_chain ext)" "cut_name (SemiMerged_chain ext) = ''SemiMerged_SelectVVHFatJets''"
  by (simp_all add: SemiMerged_chain_def external_cut_def)

lemma distinct_Exactly3FatJets_cut: "distinct (names_of (Exactly3FatJets_cut ext))"
  by (simp add: Exactly3FatJets_cut_def names_of_AllMerged_chain names_of_SemiMerged_chain)

lemma getCut_Exactly3FatJets:
  "getCut ''Exactly3FatJets'' (VBSVVHJets_tree ext) = Exactly3FatJets_cut ext"
  by (simp add: VBSVVHJets_tree_def Exactly3FatJets_cut_def external_cut_def lambda_cut_def)

lemma Exactly3FatJets_children:
  "cut_name (pass_child (Exactly3FatJets_cut ext)) = ''AllMerged_SelectVVHFatJets''"
  "cut_name (fail_child (Exactly3FatJets_cut ext)) = ''Exactly2FatJets''"
  "cut_name (pass_child (fail_child (Exactly3FatJets_cut ext))) = ''SemiMerged_SelectVVHFatJets''"
  "fail_child (fail_child (Exactly3FatJets_cut ext)) = Null"
  by (simp_all add: Exactly3FatJets_cut_def AllMerged_chain_head SemiMerged_chain_head)

lemma walk_visits_head:
  assumes "walk c k trail w s = Inr out"
  shows "visits out (cut_name c)"
proof -
  from assms obtain new where "visited out = trail @ new" "new \<noteq> []" "fst (hd new) = cut_name c"
    by (rule walk_new)
  then show ?thesis
    by (cases new) (auto simp add: visits_def)
qed

lemma walk_visits_only:
  assumes "walk c k trail w s = Inr out" and "x \<notin> set (map fst trail)" and "x \<notin> set (names_of c)"
  shows "\<not> visits out x"
proof -
  from assms(1) obtain new where "visited out = trail @ new"
    "set (map fst new) \<subseteq> set (names_of c)"
    by (rule walk_new)
  with assms(2,3) show ?thesis
    by (auto simp add: visits_def)
qed

lemma walk_Exactly3FatJets:
  assumes n: "getLeaf_int (arbol s) ''n_fatjets'' = Inr n"
    and run: "walk (Exactly3FatJets_cut ext) k [] w s = Inr out"
  shows "visits out ''AllMerged_SelectVVHFatJets'' = (n = 3)
       \<and> visits out ''Exactly2FatJets'' = (n \<noteq> 3)
       \<and> visits out ''SemiMerged_SelectVVHFatJets'' = (n = 2)
       \<and> (n \<noteq> 3 \<and> n \<noteq> 2 \<longrightarrow> \<not> accepted out \<and> terminal_cut out = ''Exactly2FatJets'')"
proof -
  from n have e3: "LambdaCut Exactly3FatJets s = Inr (n = 3, s)"
    and e2: "LambdaCut Exactly2FatJets s = Inr (n = 2, s)"
    by (simp_all add: LambdaCut_def Exactly3FatJets_def Exactly2FatJets_def)
  from run [unfolded Exactly3FatJets_cut_def] show ?thesis
  proof (cases rule: walk_Cut_cases)
    case (pass_on s' c)
    with e3 have three: "n = 3" by simp
    from pass_on(4) have "visits out (cut_name (AllMerged_chain ext))"
      by (rule walk_visits_head)
    moreover from pass_on(4) have "\<not> visits out ''Exactly2FatJets''"
      by (rule walk_visits_only) (simp_all add: names_of_AllMerged_chain)
    moreover from pass_on(4) have "\<not> visits out ''SemiMerged_SelectVVHFatJets''"
      by (rule walk_visits_only) (simp_all add: names_of_AllMerged_chain)
    ultimately show ?thesis using three
      by (simp add: AllMerged_chain_head)
  next
    case (pass_end s' c)
    then show ?thesis by (simp add: AllMerged_chain_head)
  next
    case (fail_end s')
    then show ?thesis by simp
  next
    case (fail_on s')
    with e3 have not3: "n \<noteq> 3" and s': "s' = s" by simp_all
    from fail_on(3) have v2: "visits out ''Exactly2FatJets''"
      using walk_visits_head by fastforce
    from fail_on(3) have nam: "\<not> visits out ''AllMerged_SelectVVHFatJets''"
      by (rule walk_visits_only) (simp_all add: names_of_SemiMerged_chain)
    from fail_on(3) have "visits out ''SemiMerged_SelectVVHFatJets'' = (n = 2)
        \<and> (n \<noteq> 2 \<longrightarrow> \<not> accepted out \<and> terminal_cut out = ''Exactly2FatJets'')"
    proof (cases rule: walk_Cut_cases)
      case (pass_on s'' c)
      with e2 s' have two: "n = 2" by simp
      from pass_on(4) have "visits out (cut_name (SemiMerged_chain ext))"
        by (rule walk_visits_head)
      with two show ?thesis by (simp add: SemiMerged_chain_head)
    next
      case (pass_end s'' c)
      then show ?thesis by (simp add: SemiMerged_chain_head)
    next
      case (fail_on s'')
      then show ?thesis by simp
    next
      case (fail_end s'')
      with e2 s' have "n \<noteq> 2" by simp
      with fail_end show ?thesis by (simp add: visits_def)
    qed
    with not3 v2 nam show ?thesis by simp
  qed
qed

lemma walk_Exactly3FatJets_entries:
  assumes "walk (Exactly3FatJets_cut ext) k [] w s = Inr out"
  shows "entries (counters out) x = entries k x + (if visits out x then 1 else 0)"
  using assms distinct_Exactly3FatJets_cut by (rule walk_entries_visits)

text \<open>
  Claim C5, as amended. The calls of \<open>initCutflow\<close> build the tree written out above; in it
  \<open>Exactly3FatJets\<close> has the all-merged chain (headed by \<open>AllMerged_SelectVVHFatJets\<close>) as
  pass-successor and \<open>Exactly2FatJets\<close> as fail-successor, whose pass-successor heads the
  semi-merged chain and which has no fail-successor. For a record that reaches
  \<open>Exactly3FatJets\<close> with \<open>n\<close> fat jets and whose traversal completes: the all-merged chain
  is entered exactly when \<open>n = 3\<close> and \<open>Exactly2FatJets\<close> exactly when \<open>n \<noteq> 3\<close>, so one
  of the two successors and never both; the semi-merged chain is entered exactly when
  \<open>n = 2\<close>; with any other \<open>n\<close> the record is rejected at \<open>Exactly2FatJets\<close>. The entry
  counts of the three nodes grow accordingly.
\<close>

theorem Exactly3FatJets_splits_by_fatjet_count:
  "VBSVVHJets_initCutflow ext = Inr (VBSVVHJets_tree ext)
   \<and> getCut ''Exactly3FatJets'' (VBSVVHJets_tree ext) = Exactly3FatJets_cut ext
   \<and> cut_name (pass_child (Exactly3FatJets_cut ext)) = ''AllMerged_SelectVVHFatJets''
   \<and> cut_name (fail_child (Exactly3FatJets_cut ext)) = ''Exactly2FatJets''
   \<and> cut_name (pass_child (fail_child (Exactly3FatJets_cut ext))) = ''SemiMerged_SelectVVHFatJets''
   \<and> fail_child (fail_child (Exactly3FatJets_cut ext)) = Null
   \<and> (getLeaf_int (arbol s) ''n_fatjets'' = Inr n
        \<and> walk (getCut ''Exactly3FatJets'' (VBSVVHJets_tree ext)) k [] w s = Inr out
      \<longrightarrow> visits out ''AllMerged_SelectVVHFatJets'' = (n = 3)
        \<and> visits out ''Exactly2FatJets'' = (n \<noteq> 3)
        \<and> visits out ''SemiMerged_SelectVVHFatJets'' = (n = 2)
        \<and> (n \<noteq> 3 \<and> n \<noteq> 2 \<longrightarrow> \<not> accepted out \<and> terminal_cut out = ''Exactly2FatJets'')
        \<and> entries (counters out) ''AllMerged_SelectVVHFatJets''
            = entries k ''AllMerged_SelectVVHFatJets'' + (if n = 3 then 1 else 0)
        \<and> entries (counters out) ''Exactly2FatJets''
            = entries k ''Exactly2FatJets'' + (if n = 3 then 0 else 1)
        \<and> entries (counters out) ''SemiMerged_SelectVVHFatJets''
            = entries k ''SemiMerged_SelectVVHFatJets'' + (if n = 2 then 1 else 0))"
proof -
  have "visits out ''AllMerged_SelectVVHFatJets'' = (n = 3)
        \<and> visits out ''Exactly2FatJets'' = (n \<noteq> 3)
        \<and> visits out ''SemiMerged_SelectVVHFatJets'' = (n = 2)
        \<and> (n \<noteq> 3 \<and> n \<noteq> 2 \<longrightarrow> \<not> accepted out \<and> terminal_cut out = ''Exactly2FatJets'')
        \<and> entries (counters out) ''AllMerged_SelectVVHFatJets''
            = entries k ''AllMerged_SelectVVHFatJets'' + (if n = 3 then 1 else 0)
        \<and> entries (counters out) ''Exactly2FatJets''
            = entries k ''Exactly2FatJets'' + (if n = 3 then 0 else 1)
        \<and> entries (counters out) ''SemiMerged_SelectVVHFatJets''
            = entries k ''SemiMerged_SelectVVHFatJets'' + (if n = 2 then 1 else 0)"
    if n: "getLeaf_int (arbol s) ''n_fatjets'' = Inr n"
      and run: "walk (Exactly3FatJets_cut ext) k [] w s = Inr out"
  proof -
    note v = walk_Exactly3FatJets [OF n run]
    note e = walk_Exactly3FatJets_entries [OF run]
    from v show ?thesis
      by (simp only: e) simp
  qed
  then show ?thesis
    by (simp only: initCutflow_builds_tree getCut_Exactly3FatJets Exactly3FatJets_children)
       blast
qed

lemma fatjets_state_leaf: "getLeaf_int (arbol (fatjets_state n)) ''n_fatjets'' = Inr n"
  by (simp add: fatjets_state_def getLeaf_int_def)

lemma walk_four_fatjets:
  "walk (Exactly3FatJets_cut sample_ext) no_counts [] 1 (fatjets_state 4) =
     Inr \<lparr>accepted = False, cumulative_weight = 1, terminal_cut = ''Exactly2FatJets'',
          visited = [(''Exactly3FatJets'', None), (''Exactly2FatJets'', None)],
          counters = (no_counts(''Exactly3FatJets'' := count_fail (no_counts ''Exactly3FatJets'')))
                       (''Exactly2FatJets'' := count_fail (no_counts ''Exactly2FatJets'')),
          stores = fatjets_state 4\<rparr>"
  by (simp add: Exactly3FatJets_cut_def LambdaCut_def Exactly3FatJets_def Exactly2FatJets_def
      fatjets_state_leaf)

text \<open>
  The claim as stated fails on a record with four fat jets: it enters the fail-successor
  \<open>Exactly2FatJets\<close> although \<open>n_fatjets == 2\<close> does not hold for it, and it enters neither
  chain, so the entry count of the fail side is not the number of records with two fat jets.
\<close>

theorem Exactly3FatJets_counts_counterexample:
  "Exactly3FatJets (fatjets_state 4) = Inr False
   \<and> Exactly2FatJets (fatjets_state 4) = Inr False
   \<and> Cutflow_run (VBSVVHJets_tree sample_ext) no_counts ''Exactly3FatJets'' (fatjets_state 4) =
       Inr \<lparr>accepted = False, cumulative_weight = 1, terminal_cut = ''Exactly2FatJets'',
            visited = [(''Exactly3FatJets'', None), (''Exactly2FatJets'', None)],
            counters =
              (no_counts(''Exactly3FatJets'' := count_fail (no_counts ''Exactly3FatJets'')))
                (''Exactly2FatJets'' := count_fail (no_counts ''Exactly2FatJets'')),
            stores = fatjets_state 4\<rparr>"
  by (simp add: Cutflow_run_def getCut_Exactly3FatJets walk_four_fatjets
      Exactly3FatJets_def Exactly2FatJets_def fatjets_state_leaf)

lemma walk_three_fatjets:
  "\<exists>out. walk (Exactly3FatJets_cut sample_ext) no_counts [] 1 (fatjets_state 3) = Inr out
      \<and> terminal_cut out = ''AllMerged_ApplyAk4GlobalBVeto''"
  by (simp add: Exactly3FatJets_cut_def AllMerged_chain_def external_cut_def lambda_cut_def
      sample_ext_def LambdaCut_def Exactly3FatJets_def ApplyAk4GlobalBVeto_def
      fatjets_state_leaf)
     (simp add: fatjets_state_def getLeaf_bool_def newBranch_def)

theorem Exactly3FatJets_splits_by_fatjet_count_witness:
  "getLeaf_int (arbol (fatjets_state 3)) ''n_fatjets'' = Inr 3
   \<and> (\<exists>out. walk (getCut ''Exactly3FatJets'' (VBSVVHJets_tree sample_ext)) no_counts [] 1
               (fatjets_state 3) = Inr out
         \<and> terminal_cut out = ''AllMerged_ApplyAk4GlobalBVeto''
         \<and> visits out ''AllMerged_SelectVVHFatJets''
         \<and> \<not> visits out ''Exactly2FatJets''
         \<and> \<not> visits out ''SemiMerged_SelectVVHFatJets''
         \<and> entries (counters out) ''AllMerged_SelectVVHFatJets'' = 1
         \<and> entries (counters out) ''Exactly2FatJets'' = 0)"
proof -
  from walk_three_fatjets obtain out where
    run: "walk (getCut ''Exactly3FatJets'' (VBSVVHJets_tree sample_ext)) no_counts [] 1
            (fatjets_state 3) = Inr out"
    and tc: "terminal_cut out = ''AllMerged_ApplyAk4GlobalBVeto''"
    by (auto simp add: getCut_Exactly3FatJets)
  have zero: "entries no_counts ''AllMerged_SelectVVHFatJets'' = 0"
    "entries no_counts ''Exactly2FatJets'' = 0"
    by (simp_all add: entries_def no_counts_def)
  from Exactly3FatJets_splits_by_fatjet_count
    [of sample_ext "fatjets_state 3" 3 no_counts 1 out] fatjets_state_leaf [of 3] run zero
  have "visits out ''AllMerged_SelectVVHFatJets''
         \<and> \<not> visits out ''Exactly2FatJets''
         \<and> \<not> visits out ''SemiMerged_SelectVVHFatJets''
         \<and> entries (counters out) ''AllMerged_SelectVVHFatJets'' = 1
         \<and> entries (counters out) ''Exactly2FatJets'' = 0"
    by simp
  with run tc fatjets_state_leaf [of 3] show ?thesis by blast
qed

text \<open>
  Claim C6. Two traversals from the same start node of the same graph, on the same stores
  and record, end alike whatever statistics the graph has accumulated from earlier records:
  they throw the same exception, or they agree on the verdict, the cumulative weight, the
  terminal node, the path and the stores they leave.
\<close>

theorem traversal_is_deterministic:
  "map_sum id observed (Cutflow_run tree k start s)
     = map_sum id observed (Cutflow_run tree k' start s)"
  unfolding Cutflow_run_def by (rule walk_counters_irrelevant)










end
